theory Spec2Isabelle
  imports Complex_Main "HOL-Library.Stream"
begin

section \<open>Errors\<close>

text \<open>
  Every exception that the Python code or the tensor library underneath it can raise is a
  value.  The constructor says which Python exception it is, the argument says which check
  of the library raised it.
\<close>

datatype reason =
    BroadcastMismatch        \<comment> \<open>operand shapes of an elementwise operation do not broadcast\<close>
  | InplaceMismatch          \<comment> \<open>the result of an in-place operation does not fit the left operand\<close>
  | GatherOutOfBounds        \<comment> \<open>\<open>gather\<close> with an index outside the vector\<close>
  | CatMismatch              \<comment> \<open>\<open>torch.cat\<close> of tensors whose other dimensions differ\<close>
  | MatmulMismatch           \<comment> \<open>\<open>nn.Linear\<close> on an input of the wrong width\<close>
  | ChannelMismatch          \<comment> \<open>batch normalisation on the wrong number of channels\<close>
  | ViewInvalid              \<comment> \<open>\<open>view\<close> to a shape with another number of elements\<close>
  | NegativeDimension        \<comment> \<open>a tensor with a negative dimension is requested\<close>
  | RandomRange              \<comment> \<open>\<open>randint\<close> with \<open>low \<ge> high\<close>\<close>

datatype error =
    ValueError string
  | TypeError
  | KeyError string
  | IndexError
  | RuntimeError reason

definition bindE :: "error + 'x \<Rightarrow> ('x \<Rightarrow> error + 'y) \<Rightarrow> error + 'y" where
  "bindE m f = (case m of Inl e \<Rightarrow> Inl e | Inr v \<Rightarrow> f v)"

section \<open>Tensors\<close>

text \<open>
  A tensor is its shape together with the function from indices to entries.  Only the
  entries at indices inside the shape mean anything.  The scalar type \<open>'a\<close> stands for
  the floating-point type of the tensor; the operations on it are the ones of its type
  classes, so a statement proved for a type class without axioms holds for every
  arithmetic, rounded or exact.
\<close>

record 'a tensor =
  shape :: "nat list"
  elem :: "nat list \<Rightarrow> 'a"

definition valid_idx :: "nat list \<Rightarrow> nat list \<Rightarrow> bool" where
  "valid_idx s idx = list_all2 (\<lambda>i n. i < n) idx s"

definition numel :: "nat list \<Rightarrow> nat" where
  "numel s = prod_list s"

subsection \<open>Broadcasting\<close>

text \<open>
  The library aligns two shapes at their last dimension, pads the shorter one with
  leading ones, and accepts a pair of sizes that are equal or of which one is 1.
\<close>

definition pad_to :: "nat \<Rightarrow> nat list \<Rightarrow> nat list" where
  "pad_to n s = replicate (n - length s) 1 @ s"

definition broadcast_shapes :: "nat list \<Rightarrow> nat list \<Rightarrow> nat list option" where
  "broadcast_shapes s1 s2 =
     (let n = max (length s1) (length s2); a = pad_to n s1; b = pad_to n s2
      in if list_all2 (\<lambda>x y. x = y \<or> x = 1 \<or> y = 1) a b
         then Some (map2 (\<lambda>x y. if x = 1 then y else x) a b)
         else None)"

text \<open>The index of an operand that a result index reads.\<close>

definition bidx :: "nat list \<Rightarrow> nat list \<Rightarrow> nat list" where
  "bidx s idx = map2 (\<lambda>n i. if n = 1 then 0 else i) s (drop (length idx - length s) idx)"

definition binop :: "('a \<Rightarrow> 'a \<Rightarrow> 'a) \<Rightarrow> 'a tensor \<Rightarrow> 'a tensor \<Rightarrow> error + 'a tensor" where
  "binop f x y =
     (case broadcast_shapes (shape x) (shape y) of
        None \<Rightarrow> Inl (RuntimeError BroadcastMismatch)
      | Some s \<Rightarrow>
          Inr \<lparr>shape = s,
               elem = (\<lambda>idx. f (elem x (bidx (shape x) idx)) (elem y (bidx (shape y) idx)))\<rparr>)"

text \<open>
  \<open>x += y\<close>: the in-place form cannot change the shape of \<open>x\<close>, so \<open>y\<close> has to
  broadcast to exactly that shape.
\<close>

definition iadd :: "'a::plus tensor \<Rightarrow> 'a tensor \<Rightarrow> error + 'a tensor" where
  "iadd x y =
     (case broadcast_shapes (shape x) (shape y) of
        None \<Rightarrow> Inl (RuntimeError BroadcastMismatch)
      | Some s \<Rightarrow>
          if s = shape x
          then Inr \<lparr>shape = s, elem = (\<lambda>idx. elem x idx + elem y (bidx (shape y) idx))\<rparr>
          else Inl (RuntimeError InplaceMismatch))"

section \<open>Extraction utility\<close>

text \<open>
  \<^verbatim>\<open>def extract(a, t, x_shape)\<close>: \<open>a\<close> is a coefficient vector, \<open>t\<close> a one-dimensional
  tensor of integer indices.  \<open>gather\<close> raises on an index outside \<open>a\<close> (it takes no
  negative index); the result has one row per entry of \<open>t\<close> and \<open>len(x_shape) - 1\<close>
  further axes of size 1 (none when \<open>x_shape\<close> is empty, as \<open>(1,) * (-1)\<close> is \<open>()\<close>).
  The name \<open>extract\<close> is a command of Isabelle, hence the suffix.
\<close>

definition extract_fn :: "'a list \<Rightarrow> int list \<Rightarrow> nat list \<Rightarrow> error + 'a tensor" where
  "extract_fn a t x_shape =
     (if list_ex (\<lambda>i. i < 0 \<or> int (length a) \<le> i) t
      then Inl (RuntimeError GatherOutOfBounds)
      else Inr \<lparr>shape = length t # replicate (length x_shape - 1) 1,
                elem = (\<lambda>idx. a ! nat (t ! (idx ! 0)))\<rparr>)"


text \<open>
  Reductions and reshaping.  \<open>indices s\<close> lists the indices of a shape in row-major order;
  \<open>ravel\<close> and \<open>unravel\<close> convert between an index and its position in that order, which
  is what \<open>view\<close> preserves.
\<close>

fun indices :: "nat list \<Rightarrow> nat list list" where
  "indices [] = [[]]"
| "indices (n # ns) = concat (map (\<lambda>i. map ((#) i) (indices ns)) [0..<n])"

definition tsum :: "'a::monoid_add tensor \<Rightarrow> 'a" where
  "tsum x = sum_list (map (elem x) (indices (shape x)))"

fun ravel :: "nat list \<Rightarrow> nat list \<Rightarrow> nat" where
  "ravel (n # ns) (i # is) = i * prod_list ns + ravel ns is"
| "ravel _ _ = 0"

fun unravel :: "nat list \<Rightarrow> nat \<Rightarrow> nat list" where
  "unravel [] k = []"
| "unravel (n # ns) k = (k div prod_list ns) # unravel ns (k mod prod_list ns)"

text \<open>\<open>x.view(*sizes)\<close> with every size given: the number of elements has to agree.\<close>

definition view :: "'a tensor \<Rightarrow> nat list \<Rightarrow> error + 'a tensor" where
  "view x s =
     (if numel (shape x) = numel s
      then Inr \<lparr>shape = s, elem = (\<lambda>idx. elem x (unravel (shape x) (ravel s idx)))\<rparr>
      else Inl (RuntimeError ViewInvalid))"

text \<open>
  \<open>x.repeat(*reps)\<close> with as many repetition counts as \<open>x\<close> has axes (the only use in the
  source); a negative count asks for a tensor with a negative dimension.
\<close>

definition repeat :: "'a tensor \<Rightarrow> int list \<Rightarrow> error + 'a tensor" where
  "repeat x reps =
     (if list_ex (\<lambda>r. r < 0) reps then Inl (RuntimeError NegativeDimension)
      else if length reps \<noteq> length (shape x) then Inl (RuntimeError ViewInvalid)
      else Inr \<lparr>shape = map2 (\<lambda>n r. n * nat r) (shape x) reps,
                elem = (\<lambda>idx. elem x (map2 (\<lambda>i n. i mod n) idx (shape x)))\<rparr>)"

text \<open>\<open>torch.transpose(x, 1, -1)\<close>: axis 1 has to exist.\<close>

definition swap_1_last :: "'x list \<Rightarrow> 'x list" where
  "swap_1_last xs = (xs[1 := last xs])[length xs - 1 := xs ! 1]"

definition transpose_1_last :: "'a tensor \<Rightarrow> error + 'a tensor" where
  "transpose_1_last x =
     (if length (shape x) < 2 then Inl IndexError
      else Inr \<lparr>shape = swap_1_last (shape x), elem = (\<lambda>idx. elem x (swap_1_last idx))\<rparr>)"

section \<open>Shapes through the layers of the denoisers\<close>

text \<open>
  What a layer does to the entries of a tensor depends on trained weights and is not
  modelled; whether it raises, and the shape it returns, depend on the shape of its input
  only.  The functions of this section are the layers of the source on shapes.
\<close>

definition flatten_from2 :: "nat list \<Rightarrow> error + nat list" where
  \<comment> \<open>\<open>torch.flatten(x, start_dim=2)\<close>\<close>
  "flatten_from2 s =
     (if length s < 3 then Inl IndexError else Inr (take 2 s @ [prod_list (drop 2 s)]))"

definition cat_last :: "nat list list \<Rightarrow> error + nat list" where
  \<comment> \<open>\<open>torch.cat(xs, dim=-1)\<close>; every operand in the source has three axes\<close>
  "cat_last ss =
     (case ss of
        [] \<Rightarrow> Inl (RuntimeError CatMismatch)
      | s # r \<Rightarrow>
          if s = [] then Inl (RuntimeError CatMismatch)
          else if list_all (\<lambda>u. length u = length s \<and> butlast u = butlast s) r
          then Inr (butlast s @ [sum_list (map last ss)])
          else Inl (RuntimeError CatMismatch))"

definition linear :: "nat \<Rightarrow> nat \<Rightarrow> nat list \<Rightarrow> error + nat list" where
  \<comment> \<open>\<open>nn.Linear(n_in, n_out)\<close> applied to an input of shape \<open>s\<close>\<close>
  "linear n_in n_out s =
     (if s \<noteq> [] \<and> last s = n_in then Inr (butlast s @ [n_out])
      else Inl (RuntimeError MatmulMismatch))"

definition transpose_last2 :: "nat list \<Rightarrow> error + nat list" where
  \<comment> \<open>\<open>torch.transpose(x, -1, -2)\<close>\<close>
  "transpose_last2 s =
     (if length s < 2 then Inl IndexError
      else Inr (take (length s - 2) s @ [last s, s ! (length s - 2)]))"

text \<open>
  Batch normalisation checks the number of axes first.  In training mode it then refuses an
  input with exactly one value per channel (the product of all sizes but the one of the
  channel axis is 1).  An input without entries is returned next, scaled by the first
  weight and shifted by the first bias of the layer, before the number of channels is
  looked at; a layer for no channel has no first weight.  Only then the number of
  channels has to be the one the layer was built for.
\<close>

definition batch_norm :: "bool \<Rightarrow> nat \<Rightarrow> nat list \<Rightarrow> error + nat list" where
  "batch_norm training c s =
     (if training \<and> hd s * prod_list (drop 2 s) = 1
      then Inl (ValueError ''Expected more than 1 value per channel when training'')
      else if numel s = 0 then (if c = 0 then Inl IndexError else Inr s)
      else if s ! 1 \<noteq> c then Inl (RuntimeError ChannelMismatch)
      else Inr s)"

definition BatchNorm1d_forward :: "bool \<Rightarrow> nat \<Rightarrow> nat list \<Rightarrow> error + nat list" where
  "BatchNorm1d_forward training c s =
     (if length s \<noteq> 2 \<and> length s \<noteq> 3 then Inl (ValueError ''expected 2D or 3D input'')
      else batch_norm training c s)"

definition BatchNorm2d_shape :: "bool \<Rightarrow> nat \<Rightarrow> nat list \<Rightarrow> error + nat list" where
  "BatchNorm2d_shape training c s =
     (if length s \<noteq> 4 then Inl (ValueError ''expected 4D input'')
      else batch_norm training c s)"

definition layer_norm :: "nat \<Rightarrow> nat list \<Rightarrow> error + nat list" where
  \<comment> \<open>\<open>nn.LayerNorm(n)\<close>\<close>
  "layer_norm n s =
     (if s \<noteq> [] \<and> last s = n then Inr s else Inl (RuntimeError MatmulMismatch))"

text \<open>
  \<open>x.view(*sizes, -1)\<close> on a tensor of \<open>n\<close> elements, the last size inferred: the library
  refuses to infer a size when the given ones multiply to 0.
\<close>

definition view_infer_last :: "nat \<Rightarrow> nat list \<Rightarrow> error + nat list" where
  "view_infer_last n sizes =
     (let newsize = prod_list sizes
      in if n = newsize \<or> (0 < newsize \<and> n mod newsize = 0)
         then (if newsize = 0 then Inl (RuntimeError ViewInvalid)
               else Inr (sizes @ [n div newsize]))
         else Inl (RuntimeError ViewInvalid))"

subsection \<open>LinearLayer and Decoder\<close>

record LinearLayer =
  in_features :: nat
  out_features :: nat

definition LinearLayer_init :: "int \<Rightarrow> int \<Rightarrow> error + LinearLayer" where
  \<comment> \<open>\<open>nn.Linear\<close> and \<open>nn.BatchNorm1d\<close> allocate their weights: no negative size\<close>
  "LinearLayer_init input_dim output_dim =
     (if input_dim < 0 \<or> output_dim < 0 then Inl (RuntimeError NegativeDimension)
      else Inr \<lparr>in_features = nat input_dim, out_features = nat output_dim\<rparr>)"

definition LinearLayer_forward :: "bool \<Rightarrow> LinearLayer \<Rightarrow> nat list \<Rightarrow> error + nat list" where
  "LinearLayer_forward training l x =
     bindE (linear (in_features l) (out_features l) x) (\<lambda>linear_output.
     bindE (transpose_last2 linear_output) (\<lambda>linear_output.
     bindE (BatchNorm1d_forward training (out_features l) linear_output) (\<lambda>normal_output.
     transpose_last2 normal_output)))"

record Decoder =
  up :: LinearLayer
  cat_layer :: LinearLayer

definition Decoder_init :: "int \<Rightarrow> int \<Rightarrow> int \<Rightarrow> error + Decoder" where
  "Decoder_init input_dim middle_dim output_dim =
     bindE (LinearLayer_init input_dim output_dim) (\<lambda>u.
     bindE (LinearLayer_init middle_dim output_dim) (\<lambda>c.
     Inr \<lparr>up = u, cat_layer = c\<rparr>))"

definition Decoder_forward :: "bool \<Rightarrow> Decoder \<Rightarrow> nat list \<Rightarrow> nat list \<Rightarrow> error + nat list" where
  "Decoder_forward training d x1 x2 =
     bindE (LinearLayer_forward training (up d) x1) (\<lambda>up_output.
     bindE (cat_last [up_output, x2]) (\<lambda>cat_output.
     LinearLayer_forward training (cat_layer d) cat_output))"


subsection \<open>UnetDiffusionModel\<close>

record UnetDiffusionModel =
  dims :: "int list"
  his_delt_step :: int
  input_dim :: int
  layer1 :: LinearLayer
  layer2 :: LinearLayer
  layer3 :: LinearLayer
  layer4 :: LinearLayer
  layer5 :: LinearLayer
  decode4 :: Decoder
  decode3 :: Decoder
  decode2 :: Decoder
  output_layer :: LinearLayer

text \<open>
  \<^verbatim>\<open>UnetDiffusionModel.__init__(dims=None, input_dim=3, conditional_dim=5, his_stp=11)\<close>.
  The layers are built in the order of the source, each entry of \<open>dims\<close> being read when
  the first layer that uses it is built: a list that is too short raises an IndexError
  there, after the layers before it have been built.  The widths 768, 384 and 192 of the
  decoders are constants of the source.
\<close>

definition list_get :: "'x list \<Rightarrow> nat \<Rightarrow> error + 'x" where
  \<comment> \<open>\<open>xs[n]\<close> for a literal index \<open>n \<ge> 0\<close>\<close>
  "list_get xs n = (if n < length xs then Inr (xs ! n) else Inl IndexError)"

definition UnetDiffusionModel_init ::
  "int list option \<Rightarrow> int \<Rightarrow> int \<Rightarrow> int \<Rightarrow> error + UnetDiffusionModel" where
  "UnetDiffusionModel_init dims_arg input_dim_arg conditional_dim_arg his_stp =
     (let ds = (case dims_arg of None \<Rightarrow> [64, 128, 256, 512] | Some d \<Rightarrow> d);
          hds = his_stp - 1;
          input_tensor_dim = hds * input_dim_arg + conditional_dim_arg * his_stp + 1
      in bindE (list_get ds 0) (\<lambda>d0.
         bindE (LinearLayer_init input_tensor_dim d0) (\<lambda>l1.
         bindE (list_get ds 1) (\<lambda>d1.
         bindE (LinearLayer_init d0 d1) (\<lambda>l2.
         bindE (list_get ds 2) (\<lambda>d2.
         bindE (LinearLayer_init d1 d2) (\<lambda>l3.
         bindE (list_get ds 3) (\<lambda>d3.
         bindE (LinearLayer_init d2 d3) (\<lambda>l4.
         bindE (LinearLayer_init d3 64) (\<lambda>l5.
         bindE (Decoder_init 64 768 d2) (\<lambda>dec4.
         bindE (Decoder_init d2 384 d1) (\<lambda>dec3.
         bindE (Decoder_init d1 192 d0) (\<lambda>dec2.
         bindE (LinearLayer_init d0 (hds * input_dim_arg)) (\<lambda>out.
         Inr \<lparr>dims = ds, his_delt_step = hds, input_dim = input_dim_arg,
              layer1 = l1, layer2 = l2, layer3 = l3, layer4 = l4, layer5 = l5,
              decode4 = dec4, decode3 = dec3, decode2 = dec2,
              output_layer = out\<rparr>))))))))))))))"

text \<open>
  \<^verbatim>\<open>UnetDiffusionModel.forward(perturbed_x, t, predicted_his_traj)\<close> on shapes; \<open>t\<close> is a
  tensor of \<open>nt\<close> elements, which \<open>t.view(-1, 1, 1).repeat((1, obs_num, 1))\<close> turns into
  shape \<open>[nt, obs_num, 1]\<close>.  The output layer is \<open>nn.Linear\<close> followed by \<open>nn.Tanh\<close>, with
  no normalisation.
\<close>

definition UnetDiffusionModel_forward ::
  "bool \<Rightarrow> UnetDiffusionModel \<Rightarrow> nat list \<Rightarrow> nat \<Rightarrow> nat list \<Rightarrow> error + nat list" where
  "UnetDiffusionModel_forward training m perturbed_x nt predicted_his_traj =
     (if length perturbed_x < 2 then Inl IndexError
      else
        let batch_size = perturbed_x ! 0; obs_num = perturbed_x ! 1
        in bindE (flatten_from2 perturbed_x) (\<lambda>input_tensor.
           bindE (flatten_from2 predicted_his_traj) (\<lambda>his_traj.
           bindE (cat_last [input_tensor, his_traj, [nt, obs_num, 1]]) (\<lambda>input_tensor.
           bindE (LinearLayer_forward training (layer1 m) input_tensor) (\<lambda>e1.
           bindE (LinearLayer_forward training (layer2 m) e1) (\<lambda>e2.
           bindE (LinearLayer_forward training (layer3 m) e2) (\<lambda>e3.
           bindE (LinearLayer_forward training (layer4 m) e3) (\<lambda>e4.
           bindE (LinearLayer_forward training (layer5 m) e4) (\<lambda>f.
           bindE (Decoder_forward training (decode4 m) f e4) (\<lambda>d4.
           bindE (Decoder_forward training (decode3 m) d4 e3) (\<lambda>d3.
           bindE (Decoder_forward training (decode2 m) d3 e2) (\<lambda>d2.
           bindE (linear (in_features (output_layer m)) (out_features (output_layer m)) d2)
             (\<lambda>out.
           if UnetDiffusionModel.his_delt_step m < 0 \<or> UnetDiffusionModel.input_dim m < 0
           then Inl (RuntimeError ViewInvalid)
           else
             let s = [batch_size, obs_num, nat (UnetDiffusionModel.his_delt_step m),
                      nat (UnetDiffusionModel.input_dim m)]
             in if numel out = numel s then Inr s
                else Inl (RuntimeError ViewInvalid))))))))))))))"

subsection \<open>DitDiffusionModel\<close>

text \<open>
  The cross-attention block \<open>TransformerCrossAttention\<close> comes from a module that is not
  part of the sources at hand.  A block is kept as the two widths it is constructed with;
  what its \<open>forward\<close> does to shapes is a parameter \<open>tca\<close> of the functions below, called
  with those two widths, the shape of the trajectory features and the shape of the
  condition features.
\<close>

record DitDiffusionModel =
  his_delt_step :: int
  input_dim :: int
  conditional_dim :: int
  dit_blocks :: "(int \<times> int) list"
  linear_output :: "nat list"

text \<open>
  \<^verbatim>\<open>DitDiffusionModel.__init__(input_dim=3, conditional_dim=5, his_stp=11, num_dit_blocks=4)\<close>.
  \<open>linear_output\<close> is kept as the widths between its layers: \<open>Linear(d, 2d)\<close>,
  \<open>LayerNorm(2d)\<close>, \<open>ReLU\<close>, \<open>Linear(2d, d)\<close>, \<open>LayerNorm(d)\<close>, \<open>ReLU\<close>,
  \<open>Linear(d, his_delt_step * input_dim)\<close>, \<open>Tanh\<close>.  \<open>range(num_dit_blocks)\<close> is empty
  for a negative number.
\<close>

definition DitDiffusionModel_init :: "int \<Rightarrow> int \<Rightarrow> int \<Rightarrow> int \<Rightarrow> error + DitDiffusionModel" where
  "DitDiffusionModel_init input_dim_arg conditional_dim_arg his_stp num_dit_blocks =
     (let hds = his_stp - 1;
          d = hds * input_dim_arg + 1;
          c = his_stp * conditional_dim_arg
      in if d < 0 \<or> hds * input_dim_arg < 0 then Inl (RuntimeError NegativeDimension)
         else Inr \<lparr>his_delt_step = hds, input_dim = d, conditional_dim = c,
                   dit_blocks = replicate (nat num_dit_blocks) (d, c),
                   linear_output = [nat d, nat (d * 2), nat d, nat (hds * input_dim_arg)]\<rparr>)"

fun dit_blocks_forward ::
  "(int \<Rightarrow> int \<Rightarrow> nat list \<Rightarrow> nat list \<Rightarrow> error + nat list) \<Rightarrow> (int \<times> int) list \<Rightarrow>
   nat list \<Rightarrow> nat list \<Rightarrow> error + nat list" where
  "dit_blocks_forward tca [] input_tensor predicted_his_traj = Inr input_tensor"
| "dit_blocks_forward tca ((d, c) # blocks) input_tensor predicted_his_traj =
     bindE (tca d c input_tensor predicted_his_traj) (\<lambda>input_tensor.
     dit_blocks_forward tca blocks input_tensor predicted_his_traj)"

definition linear_output_forward :: "nat list \<Rightarrow> nat list \<Rightarrow> error + nat list" where
  "linear_output_forward ws x =
     bindE (linear (ws ! 0) (ws ! 1) x) (\<lambda>x.
     bindE (layer_norm (ws ! 1) x) (\<lambda>x.
     bindE (linear (ws ! 1) (ws ! 2) x) (\<lambda>x.
     bindE (layer_norm (ws ! 2) x) (\<lambda>x.
     linear (ws ! 2) (ws ! 3) x))))"

definition DitDiffusionModel_forward ::
  "(int \<Rightarrow> int \<Rightarrow> nat list \<Rightarrow> nat list \<Rightarrow> error + nat list) \<Rightarrow> DitDiffusionModel \<Rightarrow>
   nat list \<Rightarrow> nat \<Rightarrow> nat list \<Rightarrow> error + nat list" where
  "DitDiffusionModel_forward tca m perturbed_x nt predicted_his_traj =
     (if length perturbed_x < 2 then Inl IndexError
      else
        let batch_size = perturbed_x ! 0; obs_num = perturbed_x ! 1
        in bindE (flatten_from2 perturbed_x) (\<lambda>input_tensor.
           bindE (flatten_from2 predicted_his_traj) (\<lambda>predicted_his_traj.
           bindE (cat_last [input_tensor, [nt, obs_num, 1]]) (\<lambda>input_tensor.
           bindE (dit_blocks_forward tca (dit_blocks m) input_tensor predicted_his_traj)
             (\<lambda>input_tensor.
           bindE (linear_output_forward (linear_output m) input_tensor) (\<lambda>noise_output.
           if DitDiffusionModel.his_delt_step m < 0 then Inl (RuntimeError ViewInvalid)
           else view_infer_last (numel noise_output)
                  [batch_size, obs_num, nat (DitDiffusionModel.his_delt_step m)]))))))"


section \<open>Randomness\<close>

text \<open>
  The generator of the library is a stream of draws; every call that draws consumes the
  head of the stream.  A draw offers standard-normal entries for every index
  (\<open>torch.randn_like\<close>) and raw integers (\<open>torch.randint\<close>, which reduces them into
  \<open>[low, high)\<close> and raises when that interval is empty).  Which distribution the entries
  follow is outside the model.
\<close>

datatype 'a draw = Draw (normal: "nat list \<Rightarrow> 'a") (integers: "nat \<Rightarrow> nat")

type_synonym 'a rng = "'a draw stream"

definition randn_like :: "'a rng \<Rightarrow> 'a tensor \<Rightarrow> 'a tensor \<times> 'a rng" where
  "randn_like g x = (\<lparr>shape = shape x, elem = normal (shd g)\<rparr>, stl g)"

definition randint :: "int \<Rightarrow> int \<Rightarrow> nat \<Rightarrow> 'a rng \<Rightarrow> (error + int list) \<times> 'a rng" where
  "randint low high n g =
     (if high \<le> low then (Inl (RuntimeError RandomRange), g)
      else (Inr (map (\<lambda>k. low + int (integers (shd g) k mod nat (high - low))) [0..<n]),
            stl g))"

section \<open>The coefficient schedule\<close>

text \<open>
  \<open>np.cumprod\<close> multiplies from the left: the first entry is the first factor itself.
\<close>

fun cumprod_from :: "'b::times \<Rightarrow> 'b list \<Rightarrow> 'b list" where
  "cumprod_from acc [] = []"
| "cumprod_from acc (x # xs) = (acc * x) # cumprod_from (acc * x) xs"

definition np_cumprod :: "'b::times list \<Rightarrow> 'b list" where
  "np_cumprod xs = (case xs of [] \<Rightarrow> [] | x # r \<Rightarrow> x # cumprod_from x r)"

text \<open>
  An elementwise operation of numpy on two one-dimensional arrays: equal lengths, or one
  of them of length 1, which is then repeated.  The second case is taken at construction
  from an empty \<open>betas\<close>, where \<open>np.append(1, alphas_cum_prod[:-1])\<close> has length 1.
\<close>

definition np_binop :: "('b \<Rightarrow> 'b \<Rightarrow> 'b) \<Rightarrow> 'b list \<Rightarrow> 'b list \<Rightarrow> error + 'b list" where
  "np_binop f xs ys =
     (if length xs = length ys then Inr (map2 f xs ys)
      else if length xs = 1 then Inr (map (f (hd xs)) ys)
      else if length ys = 1 then Inr (map (\<lambda>x. f x (hd ys)) xs)
      else Inl (ValueError ''operands could not be broadcast together''))"

section \<open>GaussianDiffusion\<close>

text \<open>
  A denoiser is anything callable on \<open>(noise, t_batch, predicted_his_traj)\<close>.  It has a
  state of its own (weights, running statistics, or the counter of a stub) and sees the
  mode of the module, \<open>training\<close> or not.
\<close>

type_synonym ('a, 's) denoiser =
  "bool \<Rightarrow> 's \<Rightarrow> 'a tensor \<Rightarrow> int list \<Rightarrow> 'a tensor \<Rightarrow> (error + 'a tensor) \<times> 's"

text \<open>
  What the model takes from outside: the square root of numpy and the conversion
  \<open>torch.tensor(_, dtype=torch.float32)\<close> of its numbers (type \<open>'b\<close>) to those of the
  tensors (type \<open>'a\<close>), the behaviour on shapes of the cross-attention block, and the
  entries that the trained layers compute.
\<close>

record ('a, 'b, 's) backend =
  np_sqrt :: "'b \<Rightarrow> 'b"
  to_torch :: "'b \<Rightarrow> 'a"
  tca_forward :: "int \<Rightarrow> int \<Rightarrow> nat list \<Rightarrow> nat list \<Rightarrow> error + nat list"
  net_vals :: "'s \<Rightarrow> 'a tensor \<Rightarrow> int list \<Rightarrow> 'a tensor \<Rightarrow> (nat list \<Rightarrow> 'a) \<times> 's"
  bn_vals :: "'a tensor \<Rightarrow> nat list \<Rightarrow> 'a"

definition UnetDiffusionModel_call ::
  "('a, 'b, 's) backend \<Rightarrow> UnetDiffusionModel \<Rightarrow> ('a, 's) denoiser" where
  "UnetDiffusionModel_call bk m training st perturbed_x t predicted_his_traj =
     (case UnetDiffusionModel_forward training m (shape perturbed_x) (length t)
             (shape predicted_his_traj) of
        Inl e \<Rightarrow> (Inl e, st)
      | Inr s \<Rightarrow>
          (case net_vals bk st perturbed_x t predicted_his_traj of
             (vals, st') \<Rightarrow> (Inr \<lparr>shape = s, elem = vals\<rparr>, st')))"

definition DitDiffusionModel_call ::
  "('a, 'b, 's) backend \<Rightarrow> DitDiffusionModel \<Rightarrow> ('a, 's) denoiser" where
  "DitDiffusionModel_call bk m training st perturbed_x t predicted_his_traj =
     (case DitDiffusionModel_forward (tca_forward bk) m (shape perturbed_x) (length t)
             (shape predicted_his_traj) of
        Inl e \<Rightarrow> (Inl e, st)
      | Inr s \<Rightarrow>
          (case net_vals bk st perturbed_x t predicted_his_traj of
             (vals, st') \<Rightarrow> (Inr \<lparr>shape = s, elem = vals\<rparr>, st')))"

record 'a BatchNorm2d =
  num_features :: nat
  normalised :: "'a tensor \<Rightarrow> nat list \<Rightarrow> 'a"

definition BatchNorm2d_forward :: "bool \<Rightarrow> 'a BatchNorm2d \<Rightarrow> 'a tensor \<Rightarrow> error + 'a tensor" where
  "BatchNorm2d_forward training bn x =
     bindE (BatchNorm2d_shape training (num_features bn) (shape x)) (\<lambda>s.
     Inr \<lparr>shape = s, elem = normalised bn x\<rparr>)"

record ('a, 's) GaussianDiffusion =
  loss_type :: string
  diffusion_type :: string
  num_time_steps :: nat
  betas :: "'a list"
  alphas :: "'a list"
  alphas_cum_prod :: "'a list"
  sqrt_alphas_cum_prod :: "'a list"
  sqrt_one_minus_alphas_cum_prod :: "'a list"
  reciprocal_sqrt_alphas :: "'a list"
  sigma :: "'a list"
  remove_noise_coeff :: "'a list"
  his_delt_step :: int
  diffusion_model :: "('a, 's) denoiser option"
  input_dim :: int
  norm_output :: "'a BatchNorm2d"
  training :: bool

text \<open>
  \<^verbatim>\<open>GaussianDiffusion.__init__(input_dim=5, conditional_dim=5, his_stp=11, betas=None,
  loss_type="l2", num_dit_blocks=4, diffusion_type="none")\<close>.

  \<open>betas\<close> is a one-dimensional numpy array, or \<open>None\<close>.  \<open>None\<close> is replaced by the
  Python list \<open>[]\<close>, on which \<open>1.0 - betas\<close> raises a TypeError, after the two checks
  of the strings.  The local arrays are computed in the number type of numpy and
  converted as they are registered.  Neither denoiser is given \<open>his_stp\<close>: both are built
  with their default 11.  A module is in training mode when it is built.
\<close>

definition alphas_cum_prod_prev :: "'b::{one,times} list \<Rightarrow> 'b list" where
  \<comment> \<open>\<open>np.append(1, alphas_cum_prod[:-1])\<close>\<close>
  "alphas_cum_prod_prev acp = 1 # butlast acp"

definition GaussianDiffusion_init ::
  "('a, 'b::{one,minus,times,inverse}, 's) backend \<Rightarrow> int \<Rightarrow> int \<Rightarrow> int \<Rightarrow> 'b list option \<Rightarrow>
   string \<Rightarrow> int \<Rightarrow> string \<Rightarrow> error + ('a, 's) GaussianDiffusion" where
  "GaussianDiffusion_init bk input_dim_arg conditional_dim_arg his_stp betas_arg loss_type_arg
     num_dit_blocks diffusion_type_arg =
     (if loss_type_arg \<notin> set [''l1'', ''l2'']
      then Inl (ValueError (''get unknown loss type: '' @ loss_type_arg))
      else if diffusion_type_arg \<notin> set [''dit'', ''unet'', ''none'']
      then Inl (ValueError (''get unknown diffusion type: '' @ diffusion_type_arg))
      else
        case betas_arg of
          None \<Rightarrow> Inl TypeError
        | Some bs \<Rightarrow>
            let als = map (\<lambda>b. 1 - b) bs;
                acp = np_cumprod als;
                one_minus_acp = map (\<lambda>a. 1 - a) acp;
                prev = alphas_cum_prod_prev acp
            in bindE (np_binop (/) prev (map (np_sqrt bk) one_minus_acp)) (\<lambda>q.
               bindE (np_binop (*) bs (map (\<lambda>x. 1 - x) q)) (\<lambda>rnc.
               bindE (if diffusion_type_arg = ''dit''
                      then bindE (DitDiffusionModel_init input_dim_arg conditional_dim_arg 11
                                    num_dit_blocks)
                             (\<lambda>m. Inr (Some (DitDiffusionModel_call bk m)))
                      else if diffusion_type_arg = ''unet''
                      then bindE (UnetDiffusionModel_init None input_dim_arg conditional_dim_arg 11)
                             (\<lambda>m. Inr (Some (UnetDiffusionModel_call bk m)))
                      else Inr None) (\<lambda>dm.
               Inr \<lparr>loss_type = loss_type_arg,
                    diffusion_type = diffusion_type_arg,
                    num_time_steps = length bs,
                    betas = map (to_torch bk) bs,
                    alphas = map (to_torch bk) als,
                    alphas_cum_prod = map (to_torch bk) acp,
                    sqrt_alphas_cum_prod = map (to_torch bk) (map (np_sqrt bk) acp),
                    sqrt_one_minus_alphas_cum_prod =
                      map (to_torch bk) (map (np_sqrt bk) one_minus_acp),
                    reciprocal_sqrt_alphas =
                      map (to_torch bk) (map (np_sqrt bk) (map (\<lambda>a. 1 / a) als)),
                    sigma = map (to_torch bk) (map (np_sqrt bk) bs),
                    remove_noise_coeff = map (to_torch bk) rnc,
                    his_delt_step = his_stp - 1,
                    diffusion_model = dm,
                    input_dim = input_dim_arg,
                    norm_output = \<lparr>num_features = 5, normalised = bn_vals bk\<rparr>,
                    training = True\<rparr>))))"


subsection \<open>remove\_noise and perturb\_x\<close>

text \<open>
  The methods that call the denoiser or draw random numbers take the state of the denoiser
  and the generator and return them with their result.  Calling the denoiser of a
  controller built with \<open>"none"\<close> calls \<open>None\<close>: a TypeError.
\<close>

definition remove_noise ::
  "('a::{minus,times}, 's) GaussianDiffusion \<Rightarrow> 'a tensor \<Rightarrow> int list \<Rightarrow> 'a tensor \<Rightarrow> 's \<Rightarrow>
   (error + 'a tensor) \<times> 's" where
  "remove_noise self noise t_batch predicted_his_traj st =
     (case diffusion_model self of
        None \<Rightarrow> (Inl TypeError, st)
      | Some dm \<Rightarrow>
          (case dm (training self) st noise t_batch predicted_his_traj of
             (Inl e, st') \<Rightarrow> (Inl e, st')
           | (Inr model_output, st') \<Rightarrow>
               (bindE (extract_fn (remove_noise_coeff self) t_batch (shape noise)) (\<lambda>c.
                bindE (binop (*) c model_output) (\<lambda>cm.
                bindE (binop (-) noise cm) (\<lambda>d.
                bindE (extract_fn (reciprocal_sqrt_alphas self) t_batch (shape noise)) (\<lambda>r.
                binop (*) d r)))), st')))"

definition perturb_x ::
  "('a::{plus,times}, 's) GaussianDiffusion \<Rightarrow> 'a tensor \<Rightarrow> int list \<Rightarrow> 'a tensor \<Rightarrow>
   error + 'a tensor" where
  "perturb_x self future_traj t noise =
     bindE (extract_fn (sqrt_alphas_cum_prod self) t (shape future_traj)) (\<lambda>c1.
     bindE (binop (*) c1 future_traj) (\<lambda>a.
     bindE (extract_fn (sqrt_one_minus_alphas_cum_prod self) t (shape future_traj)) (\<lambda>c2.
     bindE (binop (*) c2 noise) (\<lambda>b.
     binop (+) a b))))"

subsection \<open>sample\<close>

text \<open>\<open>range(start, stop, -1)\<close>.\<close>

function range_down :: "int \<Rightarrow> int \<Rightarrow> int list" where
  "range_down start stop = (if stop < start then start # range_down (start - 1) stop else [])"
  by pat_completeness auto
termination
  by (relation "measure (\<lambda>(start, stop). nat (start - stop))") auto

declare range_down.simps [simp del]

text \<open>A \<open>for\<close> loop whose body may raise: the first exception ends the loop.\<close>

fun for_loop ::
  "('i \<Rightarrow> 'x \<Rightarrow> 'w \<Rightarrow> (error + 'x) \<times> 'w) \<Rightarrow> 'i list \<Rightarrow> 'x \<Rightarrow> 'w \<Rightarrow> (error + 'x) \<times> 'w" where
  "for_loop body [] x w = (Inr x, w)"
| "for_loop body (i # is) x w =
     (case body i x w of
        (Inl e, w') \<Rightarrow> (Inl e, w')
      | (Inr x', w') \<Rightarrow> for_loop body is x' w')"

text \<open>
  The body of the loop of \<open>sample\<close>: \<open>t_batch\<close> is \<open>t\<close> repeated \<open>batch_size\<close> times.
\<close>

fun sample_body ::
  "('a::{plus,minus,times}, 's) GaussianDiffusion \<Rightarrow> 'a tensor \<Rightarrow> nat \<Rightarrow> int \<Rightarrow> 'a tensor \<Rightarrow>
   's \<times> 'a rng \<Rightarrow> (error + 'a tensor) \<times> ('s \<times> 'a rng)" where
  "sample_body self predicted_his_traj batch_size t noise (st, g) =
     (let t_batch = replicate batch_size t
      in (case remove_noise self noise t_batch predicted_his_traj st of
            (Inl e, st') \<Rightarrow> (Inl e, (st', g))
          | (Inr noise', st') \<Rightarrow>
              if 0 < t then
                (case extract_fn (sigma self) t_batch (shape noise') of
                   Inl e \<Rightarrow> (Inl e, (st', g))
                 | Inr sg \<Rightarrow>
                     (case randn_like g noise' of
                        (z, g') \<Rightarrow> (bindE (binop (*) sg z) (iadd noise'), (st', g'))))
              else (Inr noise', (st', g))))"

declare sample_body.simps [simp del]

definition sample ::
  "('a::{plus,minus,times}, 's) GaussianDiffusion \<Rightarrow> 'a tensor \<Rightarrow> 'a tensor \<Rightarrow> 's \<times> 'a rng \<Rightarrow>
   (error + 'a tensor) \<times> ('s \<times> 'a rng)" where
  "sample self noise predicted_his_traj w =
     (if diffusion_type self \<noteq> ''none'' then
        (if shape predicted_his_traj = [] then (Inl IndexError, w)
         else
           let batch_size = shape predicted_his_traj ! 0
           in case for_loop (sample_body self predicted_his_traj batch_size)
                     (range_down (int (num_time_steps self) - 1) (- 1)) noise w of
                (Inl e, w') \<Rightarrow> (Inl e, w')
              | (Inr noise', w') \<Rightarrow>
                  (bindE (transpose_1_last noise') (\<lambda>x.
                   bindE (BatchNorm2d_forward (training self) (norm_output self) x)
                     transpose_1_last), w'))
      else (Inr noise, w))"

subsection \<open>get\_losses and forward\<close>

text \<open>
  The quotient of two scalars of the library never raises: a zero divisor gives an
  infinity, or not-a-number when the dividend is zero as well.
\<close>

datatype 'a tfloat = Finite 'a | PosInf | NegInf | NaN

definition torch_div :: "'a::linordered_field \<Rightarrow> 'a \<Rightarrow> 'a tfloat" where
  "torch_div x y =
     (if y = 0 then (if x = 0 then NaN else if 0 < x then PosInf else NegInf)
      else Finite (x / y))"

definition mse_loss :: "'a::{minus,power} tensor \<Rightarrow> 'a tensor \<Rightarrow> error + 'a tensor" where
  \<comment> \<open>\<open>F.mse_loss(input, target, reduction="none")\<close>; it broadcasts its operands\<close>
  "mse_loss inp target = binop (\<lambda>a b. (a - b)\<^sup>2) inp target"

fun get_losses ::
  "('a::linordered_field, 's) GaussianDiffusion \<Rightarrow> 'a tensor \<Rightarrow> 'a tensor \<Rightarrow> 'a tensor \<Rightarrow>
   int list \<Rightarrow> 's \<times> 'a rng \<Rightarrow> (error + 'a tfloat) \<times> ('s \<times> 'a rng)" where
  "get_losses self predicted_his_traj_delt predicted_his_traj predicted_traj_mask t (st, g) =
     (if diffusion_type self \<noteq> ''none'' then
        (case randn_like g predicted_his_traj_delt of
           (noise, g') \<Rightarrow>
             (case perturb_x self predicted_his_traj_delt t noise of
                Inl e \<Rightarrow> (Inl e, (st, g'))
              | Inr perturbed_x \<Rightarrow>
                  (case diffusion_model self of
                     None \<Rightarrow> (Inl TypeError, (st, g'))
                   | Some dm \<Rightarrow>
                       (case dm (training self) st perturbed_x t predicted_his_traj of
                          (Inl e, st') \<Rightarrow> (Inl e, (st', g'))
                        | (Inr estimated_noise, st') \<Rightarrow>
                            (if length (shape perturbed_x) < 2 then Inl IndexError
                             else
                               let batch_size = shape perturbed_x ! 0;
                                   obs_num = shape perturbed_x ! 1
                               in bindE (mse_loss estimated_noise noise) (\<lambda>diffusion_loss.
                                  bindE (view predicted_traj_mask [batch_size, obs_num, 1, 1])
                                    (\<lambda>m.
                                  bindE (repeat m [1, 1, his_delt_step self, input_dim self])
                                    (\<lambda>diffusion_loss_mask.
                                  bindE (binop (*) diffusion_loss diffusion_loss_mask) (\<lambda>lm.
                                  Inr (torch_div (tsum lm) (tsum diffusion_loss_mask)))))),
                             (st', g'))))))
      else (Inr (Finite 0), (st, g)))"

declare get_losses.simps [simp del]

text \<open>
  \<open>forward(data)\<close>: \<open>data\<close> is a dictionary; a missing key raises a KeyError.  The
  timesteps are drawn before \<open>get_losses\<close> looks at \<open>diffusion_type\<close>.
\<close>

fun forward ::
  "('a::linordered_field, 's) GaussianDiffusion \<Rightarrow> (string \<rightharpoonup> 'a tensor) \<Rightarrow> 's \<times> 'a rng \<Rightarrow>
   (error + 'a tfloat) \<times> ('s \<times> 'a rng)" where
  "forward self data (st, g) =
     (case data ''predicted_his_traj_delt'' of
        None \<Rightarrow> (Inl (KeyError ''predicted_his_traj_delt''), (st, g))
      | Some predicted_his_traj_delt \<Rightarrow>
     (case data ''predicted_his_traj'' of
        None \<Rightarrow> (Inl (KeyError ''predicted_his_traj''), (st, g))
      | Some predicted_his_traj \<Rightarrow>
     (case data ''predicted_traj_mask'' of
        None \<Rightarrow> (Inl (KeyError ''predicted_traj_mask''), (st, g))
      | Some predicted_traj_mask \<Rightarrow>
          if shape predicted_his_traj_delt = [] then (Inl IndexError, (st, g))
          else
            (case randint 0 (int (num_time_steps self)) (shape predicted_his_traj_delt ! 0) g of
               (Inl e, g') \<Rightarrow> (Inl e, (st, g'))
             | (Inr t, g') \<Rightarrow>
                 get_losses self predicted_his_traj_delt predicted_his_traj
                   predicted_traj_mask t (st, g')))))"

declare forward.simps [simp del]


section \<open>The conversion to float32\<close>

text \<open>
  \<^verbatim>\<open>to_torch = partial(torch.tensor, dtype=torch.float32)\<close> rounds a number of numpy to
  the nearest number of the 32-bit format, a tie going to the neighbour with the even
  significand; a magnitude that rounds to \<open>2 ^ 128\<close> or more becomes an infinity.  The
  numbers of the format are the multiples \<open>m * 2 ^ j / 2 ^ 149\<close> with \<open>m \<le> 2 ^ 24\<close>: scaled
  by \<open>2 ^ 149\<close>, a magnitude with \<open>L\<close> binary digits before the point is rounded to a
  multiple of \<open>2 ^ j\<close> with \<open>j = L - 24\<close>, or to an integer when \<open>L \<le> 24\<close> (the
  subnormal numbers and the smallest normal ones).
\<close>

fun bit_length :: "nat \<Rightarrow> nat" where
  "bit_length n = (if n = 0 then 0 else Suc (bit_length (n div 2)))"

declare bit_length.simps [simp del]

definition round_half_even :: "real \<Rightarrow> int" where
  "round_half_even x =
     (let f = \<lfloor>x\<rfloor>; r = x - of_int f
      in if r < 1 / 2 then f else if 1 / 2 < r then f + 1 else if even f then f else f + 1)"

definition grid :: "real \<Rightarrow> real" where
  \<comment> \<open>the scaled magnitude \<open>X\<close>, rounded to 24 significant binary digits\<close>
  "grid X = (let j = bit_length (nat \<lfloor>X\<rfloor>) - 24
             in of_int (round_half_even (X / 2 ^ j)) * 2 ^ j)"

definition float32_round :: "real \<Rightarrow> real" where
  "float32_round x = sgn x * (grid (\<bar>x\<bar> * 2 ^ 149) / 2 ^ 149)"


section \<open>Auxiliary definitions for the statements\<close>

text \<open>
  The noise-removal coefficient as \<open>__init__\<close> computes it, and the construction of the
  denoiser, each on its own.
\<close>

definition schedule_rnc :: "('b::{one,minus,times,inverse} \<Rightarrow> 'b) \<Rightarrow> 'b list \<Rightarrow> 'b list" where
  "schedule_rnc sq bs =
     (let acp = np_cumprod (map (\<lambda>b. 1 - b) bs)
      in map2 (*) bs
           (map (\<lambda>x. 1 - x)
              (map2 (/) (alphas_cum_prod_prev acp) (map sq (map (\<lambda>a. 1 - a) acp)))))"

definition build_denoiser ::
  "('a, 'b, 's) backend \<Rightarrow> int \<Rightarrow> int \<Rightarrow> int \<Rightarrow> string \<Rightarrow> error + ('a, 's) denoiser option" where
  "build_denoiser bk i c nb dt =
     (if dt = ''dit''
      then bindE (DitDiffusionModel_init i c 11 nb)
             (\<lambda>m. Inr (Some (DitDiffusionModel_call bk m)))
      else if dt = ''unet''
      then bindE (UnetDiffusionModel_init None i c 11)
             (\<lambda>m. Inr (Some (UnetDiffusionModel_call bk m)))
      else Inr None)"

text \<open>
  Modelled from the spec: the forward pass of \<open>TransformerCrossAttention\<close> (module
  \<open>net_works.transformer\<close>, which is not among the sources), on shapes.  The
  specification gives its contract: it maps trajectory features and condition features to
  trajectory features of unchanged shape.
\<close>

definition TransformerCrossAttention_forward ::
  "int \<Rightarrow> int \<Rightarrow> nat list \<Rightarrow> nat list \<Rightarrow> error + nat list" where
  "TransformerCrossAttention_forward d c x h = Inr x"

text \<open>
  A small concrete instance: exact real arithmetic, the cross-attention block above, a
  network that returns the entries of its input, and a normalisation that leaves the
  entries alone.
\<close>

definition const_tensor :: "nat list \<Rightarrow> 'a \<Rightarrow> 'a tensor" where
  "const_tensor s v = \<lparr>shape = s, elem = (\<lambda>idx. v)\<rparr>"

definition demo_backend :: "(real, real, 's) backend" where
  "demo_backend =
     \<lparr>np_sqrt = sqrt, to_torch = (\<lambda>x. x), tca_forward = TransformerCrossAttention_forward,
      net_vals = (\<lambda>st x t h. (elem x, st)), bn_vals = elem\<rparr>"


text \<open>
  A stub denoiser that records its calls: its state is the list of the \<open>t_batch\<close>
  arguments it has been called with so far, and its output is that of a function \<open>f\<close>.
\<close>

definition logging ::
  "('a tensor \<Rightarrow> int list \<Rightarrow> 'a tensor \<Rightarrow> error + 'a tensor) \<Rightarrow> ('a, int list list) denoiser" where
  "logging f mode calls x t h = (f x t h, calls @ [t])"

text \<open>
  The loop of \<open>sample\<close> on its own, for a controller with \<open>n\<close> timesteps: the \<open>for\<close>
  statement over \<open>range(n - 1, -1, -1)\<close> with the body above.
\<close>

definition sample_loop ::
  "('a::{plus,minus,times}, 's) GaussianDiffusion \<Rightarrow> 'a tensor \<Rightarrow> nat \<Rightarrow> nat \<Rightarrow> 'a tensor \<Rightarrow>
   's \<times> 'a rng \<Rightarrow> (error + 'a tensor) \<times> ('s \<times> 'a rng)" where
  "sample_loop self predicted_his_traj batch_size n noise w =
     for_loop (sample_body self predicted_his_traj batch_size)
       (range_down (int n - 1) (- 1)) noise w"

text \<open>
  The final normalisation of \<open>sample\<close> on its own: transpose, normalise, transpose back.
\<close>

definition final_norm :: "('a, 's) GaussianDiffusion \<Rightarrow> 'a tensor \<Rightarrow> error + 'a tensor" where
  "final_norm self noise =
     bindE (transpose_1_last noise) (\<lambda>x.
     bindE (BatchNorm2d_forward (training self) (norm_output self) x) transpose_1_last)"

definition demo_rng :: "real rng" where
  "demo_rng = sconst (Draw (\<lambda>idx. 1) (\<lambda>k. k))"

text \<open>
  Drivers: construct a controller, then call one method on it once.
\<close>

definition run_sample ::
  "('a::{plus,minus,times}, 'b::{one,minus,times,inverse}, 's) backend \<Rightarrow> int \<Rightarrow> int \<Rightarrow> int \<Rightarrow>
   'b list option \<Rightarrow> string \<Rightarrow> int \<Rightarrow> string \<Rightarrow> 'a tensor \<Rightarrow> 'a tensor \<Rightarrow> 's \<times> 'a rng \<Rightarrow>
   error + 'a tensor" where
  "run_sample bk i c h bs lt nb dt noise hist w =
     bindE (GaussianDiffusion_init bk i c h bs lt nb dt) (\<lambda>self. fst (sample self noise hist w))"

definition run_forward ::
  "('a::linordered_field, 'b::{one,minus,times,inverse}, 's) backend \<Rightarrow> int \<Rightarrow> int \<Rightarrow> int \<Rightarrow>
   'b list option \<Rightarrow> string \<Rightarrow> int \<Rightarrow> string \<Rightarrow> (string \<rightharpoonup> 'a tensor) \<Rightarrow> 's \<times> 'a rng \<Rightarrow>
   error + 'a tfloat" where
  "run_forward bk i c h bs lt nb dt data w =
     bindE (GaussianDiffusion_init bk i c h bs lt nb dt) (\<lambda>self. fst (forward self data w))"

definition run_get_losses ::
  "('a::linordered_field, 'b::{one,minus,times,inverse}, 's) backend \<Rightarrow> int \<Rightarrow> int \<Rightarrow> int \<Rightarrow>
   'b list option \<Rightarrow> string \<Rightarrow> int \<Rightarrow> string \<Rightarrow> 'a tensor \<Rightarrow> 'a tensor \<Rightarrow> 'a tensor \<Rightarrow> int list \<Rightarrow>
   's \<times> 'a rng \<Rightarrow> error + 'a tfloat" where
  "run_get_losses bk i c h bs lt nb dt delt hist msk t w =
     bindE (GaussianDiffusion_init bk i c h bs lt nb dt)
       (\<lambda>self. fst (get_losses self delt hist msk t w))"

definition demo_batch :: "string \<rightharpoonup> real tensor" where
  "demo_batch =
     [''predicted_his_traj_delt'' \<mapsto> const_tensor [2, 8, 10, 5] 0,
      ''predicted_his_traj'' \<mapsto> const_tensor [2, 8, 11, 5] 0,
      ''predicted_traj_mask'' \<mapsto> const_tensor [2, 8] 1]"

section \<open>Basic facts\<close>

lemma bindE_Inr_iff: "bindE m f = Inr y \<longleftrightarrow> (\<exists>v. m = Inr v \<and> f v = Inr y)"
  by (cases m) (simp_all add: bindE_def)

lemma bindE_Inr [simp]: "bindE (Inr v) f = f v"
  by (simp add: bindE_def)

lemma bindE_Inl [simp]: "bindE (Inl e) f = Inl e"
  by (simp add: bindE_def)

subsection \<open>Broadcasting\<close>

lemma broadcast_shapes_eq_len:
  "length s1 = length s2 \<Longrightarrow>
   broadcast_shapes s1 s2 =
     (if list_all2 (\<lambda>x y. x = y \<or> x = 1 \<or> y = 1) s1 s2
      then Some (map2 (\<lambda>x y. if x = 1 then y else x) s1 s2) else None)"
  by (simp add: broadcast_shapes_def pad_to_def)

lemma map2_ones_left:
  "length rest = k \<Longrightarrow>
   map2 (\<lambda>x y. if x = Suc 0 then y else x) (replicate k (Suc 0)) rest = rest"
  by (induction rest arbitrary: k) auto

lemma map2_ones_right:
  "length rest = k \<Longrightarrow>
   map2 (\<lambda>x y. if x = Suc 0 then y else x) rest (replicate k (Suc 0)) = rest"
  by (induction rest arbitrary: k) auto

lemma all2_ones_left:
  "length rest = k \<Longrightarrow>
   list_all2 (\<lambda>x y. x = y \<or> x = Suc 0 \<or> y = Suc 0) (replicate k (Suc 0)) rest"
  by (induction rest arbitrary: k) auto

lemma all2_ones_right:
  "length rest = k \<Longrightarrow>
   list_all2 (\<lambda>x y. x = y \<or> x = Suc 0 \<or> y = Suc 0) rest (replicate k (Suc 0))"
  by (induction rest arbitrary: k) auto

lemma broadcast_shapes_row:
  "length rest = k \<Longrightarrow> broadcast_shapes (b # replicate k (Suc 0)) (b # rest) = Some (b # rest)"
  by (simp add: broadcast_shapes_eq_len map2_ones_left all2_ones_left)

lemma broadcast_shapes_row':
  "length rest = k \<Longrightarrow> broadcast_shapes (b # rest) (b # replicate k (Suc 0)) = Some (b # rest)"
  by (simp add: broadcast_shapes_eq_len map2_ones_right all2_ones_right)

lemma broadcast_shapes_same: "broadcast_shapes s s = Some s"
proof -
  have "map2 (\<lambda>x y. if x = 1 then y else x) s s = s"
    by (induction s) auto
  moreover have "list_all2 (\<lambda>x y. x = y \<or> x = 1 \<or> y = 1) s s"
    by (simp add: list_all2_same)
  ultimately show ?thesis
    by (simp add: broadcast_shapes_eq_len)
qed

lemma valid_idx_length: "valid_idx s idx \<Longrightarrow> length idx = length s"
  by (simp add: valid_idx_def list_all2_lengthD)

lemma bidx_valid: "valid_idx s idx \<Longrightarrow> bidx s idx = idx"
proof -
  assume v: "valid_idx s idx"
  have "list_all2 (\<lambda>i n. i < n) idx s \<Longrightarrow> map2 (\<lambda>n i. if n = 1 then 0 else i) s idx = idx"
    by (induction idx s rule: list_all2_induct) auto
  with v show ?thesis
    by (simp add: bidx_def valid_idx_length) (simp add: valid_idx_def)
qed

lemma bidx_row_0:
  "valid_idx (b # rest) idx \<Longrightarrow> bidx (b # replicate (length rest) (Suc 0)) idx ! 0 = idx ! 0"
  by (cases idx) (auto simp: valid_idx_def bidx_def dest: list_all2_lengthD)

lemma extract_fn_ok:
  "\<forall>k\<in>set t. 0 \<le> k \<and> k < int (length a) \<Longrightarrow>
   extract_fn a t s =
     Inr \<lparr>shape = length t # replicate (length s - 1) 1,
          elem = (\<lambda>idx. a ! nat (t ! (idx ! 0)))\<rparr>"
  by (auto simp: extract_fn_def list_ex_iff)

lemma binop_row_left:
  assumes "shape x = b # rest"
  shows "binop f \<lparr>shape = b # replicate (length (shape x) - 1) 1, elem = g\<rparr> x =
         Inr \<lparr>shape = shape x,
              elem = (\<lambda>idx. f (g (bidx (b # replicate (length rest) 1) idx))
                              (elem x (bidx (shape x) idx)))\<rparr>"
  using assms by (simp add: binop_def broadcast_shapes_row)

lemma binop_row_right:
  assumes "shape x = b # rest"
  shows "binop f x \<lparr>shape = b # replicate (length (shape x) - 1) 1, elem = g\<rparr> =
         Inr \<lparr>shape = shape x,
              elem = (\<lambda>idx. f (elem x (bidx (shape x) idx))
                              (g (bidx (b # replicate (length rest) 1) idx)))\<rparr>"
  using assms by (simp add: binop_def broadcast_shapes_row')

lemma binop_same_shape:
  assumes "shape y = shape x"
  shows "binop f x y =
         Inr \<lparr>shape = shape x,
              elem = (\<lambda>idx. f (elem x (bidx (shape x) idx)) (elem y (bidx (shape x) idx)))\<rparr>"
  using assms by (simp add: binop_def broadcast_shapes_same)

subsection \<open>Construction\<close>

lemma length_cumprod_from [simp]: "length (cumprod_from a xs) = length xs"
  by (induction xs arbitrary: a) auto

lemma length_np_cumprod [simp]: "length (np_cumprod xs) = length xs"
  by (cases xs) (simp_all add: np_cumprod_def)

lemma np_binop_prev:
  "length ys = length acp \<Longrightarrow>
   np_binop f (alphas_cum_prod_prev acp) ys = Inr (map2 f (alphas_cum_prod_prev acp) ys)"
  by (cases acp) (auto simp: np_binop_def alphas_cum_prod_prev_def)

lemma np_binop_same: "length xs = length ys \<Longrightarrow> np_binop f xs ys = Inr (map2 f xs ys)"
  by (simp add: np_binop_def)

text \<open>
  Construction from an array, in one piece: the two elementwise operations of numpy on
  the arrays of the schedule never raise.
\<close>

lemma init_Some_eq:
  "GaussianDiffusion_init bk i c h (Some bs) lt nb dt =
     (if lt \<notin> set [''l1'', ''l2'']
      then Inl (ValueError (''get unknown loss type: '' @ lt))
      else if dt \<notin> set [''dit'', ''unet'', ''none'']
      then Inl (ValueError (''get unknown diffusion type: '' @ dt))
      else bindE (build_denoiser bk i c nb dt) (\<lambda>dm.
        Inr \<lparr>loss_type = lt, diffusion_type = dt, num_time_steps = length bs,
             betas = map (to_torch bk) bs,
             alphas = map (to_torch bk) (map (\<lambda>b. 1 - b) bs),
             alphas_cum_prod = map (to_torch bk) (np_cumprod (map (\<lambda>b. 1 - b) bs)),
             sqrt_alphas_cum_prod =
               map (to_torch bk) (map (np_sqrt bk) (np_cumprod (map (\<lambda>b. 1 - b) bs))),
             sqrt_one_minus_alphas_cum_prod =
               map (to_torch bk)
                 (map (np_sqrt bk) (map (\<lambda>a. 1 - a) (np_cumprod (map (\<lambda>b. 1 - b) bs)))),
             reciprocal_sqrt_alphas =
               map (to_torch bk) (map (np_sqrt bk) (map (\<lambda>a. 1 / a) (map (\<lambda>b. 1 - b) bs))),
             sigma = map (to_torch bk) (map (np_sqrt bk) bs),
             remove_noise_coeff = map (to_torch bk) (schedule_rnc (np_sqrt bk) bs),
             his_delt_step = h - 1, diffusion_model = dm, input_dim = i,
             norm_output = \<lparr>num_features = 5, normalised = bn_vals bk\<rparr>,
             training = True\<rparr>))"
proof -
  let ?acp = "np_cumprod (map (\<lambda>b. 1 - b) bs)"
  let ?s = "map (np_sqrt bk) (map (\<lambda>a. 1 - a) ?acp)"
  have q: "np_binop (/) (alphas_cum_prod_prev ?acp) ?s =
           Inr (map2 (/) (alphas_cum_prod_prev ?acp) ?s)"
    by (rule np_binop_prev) simp
  have l: "length (map2 (/) (alphas_cum_prod_prev ?acp) ?s) = length bs"
    by (cases bs) (simp_all add: alphas_cum_prod_prev_def)
  have r: "np_binop (*) bs (map (\<lambda>x. 1 - x) (map2 (/) (alphas_cum_prod_prev ?acp) ?s)) =
           Inr (schedule_rnc (np_sqrt bk) bs)"
    unfolding schedule_rnc_def Let_def using l by (intro np_binop_same) simp
  show ?thesis
    unfolding GaussianDiffusion_init_def Let_def build_denoiser_def option.case q r bindE_Inr
    by (rule refl)
qed

lemma init_InrD:
  assumes "GaussianDiffusion_init bk i c h (Some bs) lt nb dt = Inr self"
  shows "loss_type self = lt" "diffusion_type self = dt" "num_time_steps self = length bs"
    "betas self = map (to_torch bk) bs"
    "alphas self = map (to_torch bk) (map (\<lambda>b. 1 - b) bs)"
    "alphas_cum_prod self = map (to_torch bk) (np_cumprod (map (\<lambda>b. 1 - b) bs))"
    "sqrt_alphas_cum_prod self =
       map (to_torch bk) (map (np_sqrt bk) (np_cumprod (map (\<lambda>b. 1 - b) bs)))"
    "sqrt_one_minus_alphas_cum_prod self =
       map (to_torch bk)
         (map (np_sqrt bk) (map (\<lambda>a. 1 - a) (np_cumprod (map (\<lambda>b. 1 - b) bs))))"
    "reciprocal_sqrt_alphas self =
       map (to_torch bk) (map (np_sqrt bk) (map (\<lambda>a. 1 / a) (map (\<lambda>b. 1 - b) bs)))"
    "sigma self = map (to_torch bk) (map (np_sqrt bk) bs)"
    "remove_noise_coeff self = map (to_torch bk) (schedule_rnc (np_sqrt bk) bs)"
    "his_delt_step self = h - 1" "input_dim self = i"
    "norm_output self = \<lparr>num_features = 5, normalised = bn_vals bk\<rparr>"
    "training self = True"
    "build_denoiser bk i c nb dt = Inr (diffusion_model self)"
    "lt \<in> set [''l1'', ''l2'']" "dt \<in> set [''dit'', ''unet'', ''none'']"
proof -
  from assms have ok: "lt \<in> set [''l1'', ''l2'']" "dt \<in> set [''dit'', ''unet'', ''none'']"
    unfolding init_Some_eq by (auto split: if_splits)
  from assms obtain dm where dm: "build_denoiser bk i c nb dt = Inr dm"
    and self: "self = \<lparr>loss_type = lt, diffusion_type = dt, num_time_steps = length bs,
             betas = map (to_torch bk) bs,
             alphas = map (to_torch bk) (map (\<lambda>b. 1 - b) bs),
             alphas_cum_prod = map (to_torch bk) (np_cumprod (map (\<lambda>b. 1 - b) bs)),
             sqrt_alphas_cum_prod =
               map (to_torch bk) (map (np_sqrt bk) (np_cumprod (map (\<lambda>b. 1 - b) bs))),
             sqrt_one_minus_alphas_cum_prod =
               map (to_torch bk)
                 (map (np_sqrt bk) (map (\<lambda>a. 1 - a) (np_cumprod (map (\<lambda>b. 1 - b) bs)))),
             reciprocal_sqrt_alphas =
               map (to_torch bk) (map (np_sqrt bk) (map (\<lambda>a. 1 / a) (map (\<lambda>b. 1 - b) bs))),
             sigma = map (to_torch bk) (map (np_sqrt bk) bs),
             remove_noise_coeff = map (to_torch bk) (schedule_rnc (np_sqrt bk) bs),
             his_delt_step = h - 1, diffusion_model = dm, input_dim = i,
             norm_output = \<lparr>num_features = 5, normalised = bn_vals bk\<rparr>,
             training = True\<rparr>"
    unfolding init_Some_eq by (auto simp: bindE_Inr_iff split: if_splits)
  show "loss_type self = lt" "diffusion_type self = dt" "num_time_steps self = length bs"
    "betas self = map (to_torch bk) bs"
    "alphas self = map (to_torch bk) (map (\<lambda>b. 1 - b) bs)"
    "alphas_cum_prod self = map (to_torch bk) (np_cumprod (map (\<lambda>b. 1 - b) bs))"
    "sqrt_alphas_cum_prod self =
       map (to_torch bk) (map (np_sqrt bk) (np_cumprod (map (\<lambda>b. 1 - b) bs)))"
    "sqrt_one_minus_alphas_cum_prod self =
       map (to_torch bk)
         (map (np_sqrt bk) (map (\<lambda>a. 1 - a) (np_cumprod (map (\<lambda>b. 1 - b) bs))))"
    "reciprocal_sqrt_alphas self =
       map (to_torch bk) (map (np_sqrt bk) (map (\<lambda>a. 1 / a) (map (\<lambda>b. 1 - b) bs)))"
    "sigma self = map (to_torch bk) (map (np_sqrt bk) bs)"
    "remove_noise_coeff self = map (to_torch bk) (schedule_rnc (np_sqrt bk) bs)"
    "his_delt_step self = h - 1" "input_dim self = i"
    "norm_output self = \<lparr>num_features = 5, normalised = bn_vals bk\<rparr>"
    "training self = True"
    "build_denoiser bk i c nb dt = Inr (diffusion_model self)"
    unfolding self using dm by simp_all
  show "lt \<in> set [''l1'', ''l2'']" "dt \<in> set [''dit'', ''unet'', ''none'']"
    by (rule ok)+
qed

lemma length_schedule_rnc [simp]: "length (schedule_rnc sq bs) = length bs"
  by (cases bs) (simp_all add: schedule_rnc_def Let_def alphas_cum_prod_prev_def)

lemma demo_init_none:
  "\<exists>self :: (real, 's) GaussianDiffusion. GaussianDiffusion_init demo_backend 5 5 11 (Some [1/2, 1/4]) ''l2'' 4 ''none''
           = Inr self"
  by (simp add: init_Some_eq build_denoiser_def)

text \<open>Evaluating the layers on concrete shapes.\<close>

lemmas shape_eval =
  UnetDiffusionModel_forward_def UnetDiffusionModel_init_def LinearLayer_init_def
  Decoder_init_def LinearLayer_forward_def Decoder_forward_def linear_def transpose_last2_def
  BatchNorm1d_forward_def batch_norm_def cat_last_def flatten_from2_def numel_def Let_def
  list_get_def

lemma demo_unet:
  "\<exists>m. UnetDiffusionModel_init None 5 5 11 = Inr m \<and>
       UnetDiffusionModel_forward True m [2, 8, 10, 5] 2 [2, 8, 11, 5] = Inr [2, 8, 10, 5]"
  by (simp add: shape_eval)

lemma demo_init_unet:
  "\<exists>(self :: (real, 's) GaussianDiffusion) m.
     GaussianDiffusion_init demo_backend 5 5 11 (Some [1/2, 1/4]) ''l2'' 4 ''unet'' = Inr self \<and>
     diffusion_model self = Some (UnetDiffusionModel_call demo_backend m) \<and>
     UnetDiffusionModel_forward True m [2, 8, 10, 5] 2 [2, 8, 11, 5] = Inr [2, 8, 10, 5]"
proof -
  obtain m where m: "UnetDiffusionModel_init None 5 5 11 = Inr m"
    "UnetDiffusionModel_forward True m [2, 8, 10, 5] 2 [2, 8, 11, 5] = Inr [2, 8, 10, 5]"
    using demo_unet by blast
  show ?thesis
    using m(2) by (simp add: init_Some_eq build_denoiser_def m(1)) blast
qed

section \<open>The forward process\<close>

text \<open>The forward process, entry by entry.\<close>

lemma perturb_x_value:
  fixes self :: "('a::{plus,times}, 's) GaussianDiffusion"
  assumes len: "length (sqrt_alphas_cum_prod self) = num_time_steps self"
      "length (sqrt_one_minus_alphas_cum_prod self) = num_time_steps self"
    and t: "\<forall>k\<in>set t. 0 \<le> k \<and> k < int (num_time_steps self)"
    and shp: "shape x0 = length t # rest" "shape noise = shape x0"
  shows "\<exists>xt. perturb_x self x0 t noise = Inr xt \<and> shape xt = shape x0 \<and>
           (\<forall>idx. valid_idx (shape x0) idx \<longrightarrow>
              elem xt idx =
                sqrt_alphas_cum_prod self ! nat (t ! (idx ! 0)) * elem x0 idx +
                sqrt_one_minus_alphas_cum_prod self ! nat (t ! (idx ! 0)) * elem noise idx)"
proof -
  let ?A = "sqrt_alphas_cum_prod self" and ?B = "sqrt_one_minus_alphas_cum_prod self"
  have e1: "extract_fn ?A t (shape x0) =
      Inr \<lparr>shape = length t # replicate (length (shape x0) - 1) 1,
           elem = (\<lambda>idx. ?A ! nat (t ! (idx ! 0)))\<rparr>"
    by (rule extract_fn_ok) (use t len in simp)
  have e2: "extract_fn ?B t (shape x0) =
      Inr \<lparr>shape = length t # replicate (length (shape noise) - 1) 1,
           elem = (\<lambda>idx. ?B ! nat (t ! (idx ! 0)))\<rparr>"
    unfolding shp(2) by (rule extract_fn_ok) (use t len in simp)
  have n: "shape noise = length t # rest"
    using shp by simp
  let ?row = "length t # replicate (length rest) 1"
  let ?xt = "\<lparr>shape = shape x0,
      elem = (\<lambda>idx. ?A ! nat (t ! (bidx ?row (bidx (shape x0) idx) ! 0)) *
                       elem x0 (bidx (shape x0) (bidx (shape x0) idx)) +
                     ?B ! nat (t ! (bidx ?row (bidx (shape x0) idx) ! 0)) *
                       elem noise (bidx (shape noise) (bidx (shape x0) idx)))\<rparr>"
  have run: "perturb_x self x0 t noise = Inr ?xt"
    unfolding perturb_x_def e1 e2 bindE_Inr binop_row_left[OF shp(1)] binop_row_left[OF n]
    by (subst binop_same_shape) (simp_all add: shp)
  have "elem ?xt idx =
          ?A ! nat (t ! (idx ! 0)) * elem x0 idx + ?B ! nat (t ! (idx ! 0)) * elem noise idx"
    if v: "valid_idx (shape x0) idx" for idx
  proof -
    have "bidx (shape x0) idx = idx"
      using v by (rule bidx_valid)
    moreover have "bidx ?row idx ! 0 = idx ! 0"
      using v unfolding shp(1) One_nat_def by (rule bidx_row_0)
    ultimately show ?thesis
      by (simp add: shp(2))
  qed
  with run show ?thesis
    by (intro exI[of _ ?xt]) simp
qed

text \<open>
  Claim C2.  On a controller whose coefficient vectors have \<open>num_time_steps\<close> entries (as
  every constructed one has), for timestep indices inside \<open>[0, num_time_steps)\<close>, one per
  batch row, and a noise tensor of the shape of the trajectory, \<open>perturb_x\<close> returns a
  tensor of that shape whose entry at every index of batch row \<open>b\<close> is
  \<open>sqrt_alphas_cum_prod[t[b]] * x0 + sqrt_one_minus_alphas_cum_prod[t[b]] * noise\<close> at
  that index: the scalar of the row is used across all remaining axes.  The statement
  uses no law of arithmetic, so it holds for rounded arithmetic as well.
\<close>

theorem perturb_x_closed_form:
  fixes self :: "('a::{plus,times}, 's) GaussianDiffusion"
  assumes len: "length (sqrt_alphas_cum_prod self) = num_time_steps self"
      "length (sqrt_one_minus_alphas_cum_prod self) = num_time_steps self"
    and t: "\<forall>k\<in>set t. 0 \<le> k \<and> k < int (num_time_steps self)"
    and shp: "shape x0 = length t # rest" "shape noise = shape x0"
  shows "\<exists>xt. perturb_x self x0 t noise = Inr xt \<and> shape xt = shape x0 \<and>
           (\<forall>idx. valid_idx (shape x0) idx \<longrightarrow>
              elem xt idx =
                sqrt_alphas_cum_prod self ! nat (t ! (idx ! 0)) * elem x0 idx +
                sqrt_one_minus_alphas_cum_prod self ! nat (t ! (idx ! 0)) * elem noise idx)"
  using assms by (rule perturb_x_value)

theorem perturb_x_closed_form_witness:
  "\<exists>(self :: (real, nat) GaussianDiffusion) xt.
     GaussianDiffusion_init demo_backend 5 5 11 (Some [1/2, 1/4]) ''l2'' 4 ''none'' = Inr self \<and>
     perturb_x self (const_tensor [2, 1] 3) [1, 0] (const_tensor [2, 1] 4) = Inr xt \<and>
     shape xt = [2, 1] \<and>
     elem xt [1, 0] =
       sqrt_alphas_cum_prod self ! 0 * 3 + sqrt_one_minus_alphas_cum_prod self ! 0 * 4"
proof -
  obtain self :: "(real, nat) GaussianDiffusion" where init:
    "GaussianDiffusion_init demo_backend 5 5 11 (Some [1/2, 1/4]) ''l2'' 4 ''none'' = Inr self"
    using demo_init_none by blast
  note f = init_InrD[OF init]
  have "\<exists>xt. perturb_x self (const_tensor [2, 1] 3) [1, 0] (const_tensor [2, 1] 4) = Inr xt \<and>
          shape xt = shape (const_tensor [2, 1] (3::real)) \<and>
          (\<forall>idx. valid_idx (shape (const_tensor [2, 1] (3::real))) idx \<longrightarrow>
             elem xt idx =
               sqrt_alphas_cum_prod self ! nat ([1, 0] ! (idx ! 0)) *
                 elem (const_tensor [2, 1] 3) idx +
               sqrt_one_minus_alphas_cum_prod self ! nat ([1, 0] ! (idx ! 0)) *
                 elem (const_tensor [2, 1] 4) idx)"
    by (rule perturb_x_closed_form[where rest = "[1]"]) (simp_all add: f const_tensor_def)
  then obtain xt where xt:
    "perturb_x self (const_tensor [2, 1] 3) [1, 0] (const_tensor [2, 1] 4) = Inr xt"
    "shape xt = [2, 1]"
    "\<And>idx. valid_idx [2, 1] idx \<Longrightarrow>
       elem xt idx = sqrt_alphas_cum_prod self ! nat ([1, 0] ! (idx ! 0)) * 3 +
               sqrt_one_minus_alphas_cum_prod self ! nat ([1, 0] ! (idx ! 0)) * 4"
    by (auto simp: const_tensor_def)
  have "valid_idx [2, 1] [1, 0]"
    by (simp add: valid_idx_def)
  from xt(3)[OF this] xt(1,2) init show ?thesis
    by auto
qed


section \<open>The reverse step\<close>

text \<open>The reverse step, entry by entry.\<close>

lemma remove_noise_value:
  fixes self :: "('a::{minus,times}, 's) GaussianDiffusion"
  assumes len: "length (remove_noise_coeff self) = num_time_steps self"
      "length (reciprocal_sqrt_alphas self) = num_time_steps self"
    and t: "\<forall>k\<in>set t. 0 \<le> k \<and> k < int (num_time_steps self)"
    and dm: "diffusion_model self = Some dm"
      "dm (training self) st xt t history = (Inr out, st')"
    and shp: "shape xt = length t # rest" "shape out = shape xt"
  shows "\<exists>r. remove_noise self xt t history st = (Inr r, st') \<and> shape r = shape xt \<and>
           (\<forall>idx. valid_idx (shape xt) idx \<longrightarrow>
              elem r idx =
                (elem xt idx - remove_noise_coeff self ! nat (t ! (idx ! 0)) * elem out idx) *
                reciprocal_sqrt_alphas self ! nat (t ! (idx ! 0)))"
proof -
  let ?A = "remove_noise_coeff self" and ?B = "reciprocal_sqrt_alphas self"
  have e1: "extract_fn ?A t (shape xt) =
      Inr \<lparr>shape = length t # replicate (length (shape out) - 1) 1, elem = (\<lambda>idx. ?A ! nat (t ! (idx ! 0)))\<rparr>"
    unfolding shp(2) by (rule extract_fn_ok) (use t len in simp)
  have o: "shape out = length t # rest" using shp by simp
  let ?row = "length t # replicate (length rest) 1"
  let ?cm = "\<lparr>shape = shape out,
       elem = (\<lambda>idx. ?A ! nat (t ! (bidx ?row idx ! 0)) * elem out (bidx (shape out) idx))\<rparr>"
  let ?d = "\<lparr>shape = shape xt,
       elem = (\<lambda>idx. elem xt (bidx (shape xt) idx) - elem ?cm (bidx (shape xt) idx))\<rparr>"
  have d: "binop (-) xt ?cm = Inr ?d"
    by (subst binop_same_shape) (simp_all add: shp)
  have dshape: "shape ?d = length t # rest" using shp by simp
  have e2: "extract_fn ?B t (shape xt) =
      Inr \<lparr>shape = length t # replicate (length (shape ?d) - 1) 1, elem = (\<lambda>idx. ?B ! nat (t ! (idx ! 0)))\<rparr>"
    by (simp only: tensor.simps) (rule extract_fn_ok, use t len in simp)
  let ?r = "\<lparr>shape = shape ?d,
       elem = (\<lambda>idx. elem ?d (bidx (shape ?d) idx) * ?B ! nat (t ! (bidx ?row idx ! 0)))\<rparr>"
  have run: "remove_noise self xt t history st = (Inr ?r, st')"
    unfolding remove_noise_def dm option.case prod.case sum.case e1 bindE_Inr
      binop_row_left[OF o] d e2 binop_row_right[OF dshape] ..
  have "elem ?r idx = (elem xt idx - ?A ! nat (t ! (idx ! 0)) * elem out idx) * ?B ! nat (t ! (idx ! 0))"
    if v: "valid_idx (shape xt) idx" for idx
  proof -
    have "bidx (shape xt) idx = idx" using v by (rule bidx_valid)
    moreover have "bidx ?row idx ! 0 = idx ! 0" using v unfolding shp(1) One_nat_def by (rule bidx_row_0)
    ultimately show ?thesis by (simp add: shp(2))
  qed
  with run show ?thesis by (intro exI[of _ ?r]) simp
qed

text \<open>
  Claim C3.  On a controller whose coefficient vectors have \<open>num_time_steps\<close> entries, for
  timestep indices inside \<open>[0, num_time_steps)\<close>, one per batch row, and for any denoiser
  that returns on \<open>(xt, t, history)\<close> an output of the shape of \<open>xt\<close>, \<open>remove_noise\<close>
  returns a tensor of that shape whose entry at every index of batch row \<open>b\<close> is
  \<open>(xt - remove_noise_coeff[t[b]] * output) * reciprocal_sqrt_alphas[t[b]]\<close>, and leaves the
  denoiser in the state in which that call left it.
\<close>

theorem remove_noise_closed_form:
  fixes self :: "('a::{minus,times}, 's) GaussianDiffusion"
  assumes len: "length (remove_noise_coeff self) = num_time_steps self"
      "length (reciprocal_sqrt_alphas self) = num_time_steps self"
    and t: "\<forall>k\<in>set t. 0 \<le> k \<and> k < int (num_time_steps self)"
    and dm: "diffusion_model self = Some dm"
      "dm (training self) st xt t history = (Inr out, st')"
    and shp: "shape xt = length t # rest" "shape out = shape xt"
  shows "\<exists>r. remove_noise self xt t history st = (Inr r, st') \<and> shape r = shape xt \<and>
           (\<forall>idx. valid_idx (shape xt) idx \<longrightarrow>
              elem r idx =
                (elem xt idx - remove_noise_coeff self ! nat (t ! (idx ! 0)) * elem out idx) *
                reciprocal_sqrt_alphas self ! nat (t ! (idx ! 0)))"
  using assms by (rule remove_noise_value)

theorem remove_noise_closed_form_witness:
  "\<exists>(self :: (real, nat) GaussianDiffusion) r st'.
     GaussianDiffusion_init demo_backend 5 5 11 (Some [1/2, 1/4]) ''l2'' 4 ''unet'' = Inr self \<and>
     remove_noise self (const_tensor [2, 8, 10, 5] 3) [1, 0] (const_tensor [2, 8, 11, 5] 0)
       (0::nat) = (Inr r, st') \<and>
     shape r = [2, 8, 10, 5] \<and>
     elem r [1, 2, 3, 4] =
       (3 - remove_noise_coeff self ! 0 * 3) * reciprocal_sqrt_alphas self ! 0"
proof -
  obtain self :: "(real, nat) GaussianDiffusion" and m where init:
    "GaussianDiffusion_init demo_backend 5 5 11 (Some [1/2, 1/4]) ''l2'' 4 ''unet'' = Inr self"
    and dm: "diffusion_model self = Some (UnetDiffusionModel_call demo_backend m)"
    and m: "UnetDiffusionModel_forward True m [2, 8, 10, 5] 2 [2, 8, 11, 5] = Inr [2, 8, 10, 5]"
    using demo_init_unet by blast
  note f = init_InrD[OF init]
  let ?xt = "const_tensor [2, 8, 10, 5] (3::real)"
  let ?h = "const_tensor [2, 8, 11, 5] (0::real)"
  have call: "UnetDiffusionModel_call demo_backend m (training self) 0 ?xt [1, 0] ?h
      = (Inr \<lparr>shape = [2, 8, 10, 5], elem = elem ?xt\<rparr>, 0)"
    using m by (simp add: UnetDiffusionModel_call_def f const_tensor_def demo_backend_def numeral_2_eq_2)
  have "\<exists>r. remove_noise self ?xt [1, 0] ?h 0 = (Inr r, 0) \<and> shape r = shape ?xt \<and>
           (\<forall>idx. valid_idx (shape ?xt) idx \<longrightarrow>
              elem r idx =
                (elem ?xt idx - remove_noise_coeff self ! nat ([1, 0] ! (idx ! 0)) *
                   elem \<lparr>shape = [2, 8, 10, 5], elem = elem ?xt\<rparr> idx) *
                reciprocal_sqrt_alphas self ! nat ([1, 0] ! (idx ! 0)))"
    by (rule remove_noise_closed_form[where rest = "[8, 10, 5]", OF _ _ _ dm call])
      (simp_all add: f const_tensor_def)
  then obtain r where r: "remove_noise self ?xt [1, 0] ?h 0 = (Inr r, 0)"
    "shape r = [2, 8, 10, 5]"
    "\<And>idx. valid_idx [2, 8, 10, 5] idx \<Longrightarrow>
       elem r idx = (3 - remove_noise_coeff self ! nat ([1, 0] ! (idx ! 0)) * 3) *
                reciprocal_sqrt_alphas self ! nat ([1, 0] ! (idx ! 0))"
    by (auto simp: const_tensor_def)
  have "valid_idx [2, 8, 10, 5] [1, 2, 3, 4]"
    by (simp add: valid_idx_def)
  from r(3)[OF this] r(1,2) init show ?thesis
    by auto
qed

section \<open>The coefficient schedule\<close>

text \<open>
  The running product of numpy is the product over an initial segment, once
  multiplication is associative and commutative with unit 1.
\<close>

lemma cumprod_from_nth:
  fixes a :: "'b::comm_monoid_mult"
  shows "i < length xs \<Longrightarrow> cumprod_from a xs ! i = a * (\<Prod>k\<le>i. xs ! k)"
proof (induction xs arbitrary: a i)
  case Nil
  then show ?case by simp
next
  case (Cons x xs)
  show ?case
  proof (cases i)
    case 0
    then show ?thesis by simp
  next
    case (Suc j)
    with Cons.prems have "j < length xs" by simp
    from Cons.IH[OF this, of "a * x"] Suc show ?thesis
      by (simp add: prod.atMost_Suc_shift mult.assoc del: prod.atMost_Suc)
  qed
qed

lemma np_cumprod_nth:
  fixes xs :: "'b::comm_monoid_mult list"
  assumes "i < length xs"
  shows "np_cumprod xs ! i = (\<Prod>k\<le>i. xs ! k)"
proof (cases xs)
  case Nil
  with assms show ?thesis by simp
next
  case (Cons x r)
  show ?thesis
  proof (cases i)
    case 0
    then show ?thesis by (simp add: np_cumprod_def Cons)
  next
    case (Suc j)
    with \<open>i < length xs\<close> Cons have "j < length r" by simp
    from cumprod_from_nth[OF this, of x] Suc show ?thesis
      by (simp add: np_cumprod_def Cons prod.atMost_Suc_shift del: prod.atMost_Suc)
  qed
qed

lemma prod_alphas:
  fixes bs :: "'b::{comm_monoid_mult,minus} list"
  shows "j < length bs \<Longrightarrow> (\<Prod>k\<le>j. map (\<lambda>b. 1 - b) bs ! k) = (\<Prod>k\<le>j. 1 - bs ! k)"
  by (rule prod.cong) auto

lemma acp_nth:
  fixes bs :: "'b::{comm_monoid_mult,minus} list"
  shows "j < length bs \<Longrightarrow> np_cumprod (map (\<lambda>b. 1 - b) bs) ! j = (\<Prod>k\<le>j. 1 - bs ! k)"
  by (simp add: np_cumprod_nth prod_alphas)

lemma prev_nth:
  fixes bs :: "'b::{comm_monoid_mult,minus} list"
  shows "j < length bs \<Longrightarrow>
    alphas_cum_prod_prev (np_cumprod (map (\<lambda>b. 1 - b) bs)) ! j =
      (if j = 0 then 1 else \<Prod>k\<le>j - 1. 1 - bs ! k)"
  by (cases j) (simp_all add: alphas_cum_prod_prev_def nth_butlast acp_nth)

lemma schedule_rnc_nth:
  fixes bs :: "'b::{comm_monoid_mult,minus,inverse} list"
  assumes "j < length bs"
  shows "schedule_rnc sq bs ! j =
     bs ! j * (1 - (if j = 0 then 1 else \<Prod>k\<le>j - 1. 1 - bs ! k) / sq (1 - (\<Prod>k\<le>j. 1 - bs ! k)))"
proof -
  let ?acp = "np_cumprod (map (\<lambda>b. 1 - b) bs)"
  have l: "length (alphas_cum_prod_prev ?acp) = length bs"
    using assms by (cases bs) (simp_all add: alphas_cum_prod_prev_def)
  show ?thesis
    using assms l by (simp add: schedule_rnc_def Let_def prev_nth acp_nth)
qed

text \<open>
  Claim C4.  Construction from a beta sequence stores coefficient vectors that all have
  as many entries as the sequence, which is \<open>num_time_steps\<close>, and whose entries are the
  conversions of the values the claim lists: \<open>1 - betas[i]\<close>, the product of
  \<open>alphas[0..i]\<close>, its square root, the square root of one minus it, the square root of
  \<open>1 / alphas[i]\<close>, the square root of \<open>betas[i]\<close>, and
  \<open>betas[i] * (1 - prev[i] / sqrt(1 - alphas_cum_prod[i]))\<close>, where \<open>prev[i]\<close> is the
  cumulative product at \<open>i - 1\<close> for \<open>i > 0\<close> and 1 for \<open>i = 0\<close>.  Subtraction, division and
  the square root are whatever the number type provides; of multiplication the statement
  uses that the product over an initial segment is well defined.
\<close>

theorem schedule_coefficients:
  fixes bk :: "('a, 'b::{comm_monoid_mult,minus,inverse}, 's) backend"
  assumes init: "GaussianDiffusion_init bk i c h (Some bs) lt nb dt = Inr self"
  shows "num_time_steps self = length bs \<and>
     length (betas self) = length bs \<and>
     length (alphas self) = length bs \<and>
     length (alphas_cum_prod self) = length bs \<and>
     length (sqrt_alphas_cum_prod self) = length bs \<and>
     length (sqrt_one_minus_alphas_cum_prod self) = length bs \<and>
     length (reciprocal_sqrt_alphas self) = length bs \<and>
     length (sigma self) = length bs \<and>
     length (remove_noise_coeff self) = length bs \<and>
     (\<forall>j<length bs.
        betas self ! j = to_torch bk (bs ! j) \<and>
        alphas self ! j = to_torch bk (1 - bs ! j) \<and>
        alphas_cum_prod self ! j = to_torch bk (\<Prod>k\<le>j. 1 - bs ! k) \<and>
        sqrt_alphas_cum_prod self ! j = to_torch bk (np_sqrt bk (\<Prod>k\<le>j. 1 - bs ! k)) \<and>
        sqrt_one_minus_alphas_cum_prod self ! j =
          to_torch bk (np_sqrt bk (1 - (\<Prod>k\<le>j. 1 - bs ! k))) \<and>
        reciprocal_sqrt_alphas self ! j = to_torch bk (np_sqrt bk (1 / (1 - bs ! j))) \<and>
        sigma self ! j = to_torch bk (np_sqrt bk (bs ! j)) \<and>
        alphas_cum_prod_prev (np_cumprod (map (\<lambda>b. 1 - b) bs)) ! j =
          (if j = 0 then 1 else \<Prod>k\<le>j - 1. 1 - bs ! k) \<and>
        remove_noise_coeff self ! j =
          to_torch bk
            (bs ! j *
             (1 - (if j = 0 then 1 else \<Prod>k\<le>j - 1. 1 - bs ! k) /
                  np_sqrt bk (1 - (\<Prod>k\<le>j. 1 - bs ! k)))))"
proof -
  note f = init_InrD[OF init]
  have lens: "num_time_steps self = length bs \<and>
     length (betas self) = length bs \<and>
     length (alphas self) = length bs \<and>
     length (alphas_cum_prod self) = length bs \<and>
     length (sqrt_alphas_cum_prod self) = length bs \<and>
     length (sqrt_one_minus_alphas_cum_prod self) = length bs \<and>
     length (reciprocal_sqrt_alphas self) = length bs \<and>
     length (sigma self) = length bs \<and>
     length (remove_noise_coeff self) = length bs"
    by (simp add: f)
  have "betas self ! j = to_torch bk (bs ! j) \<and>
        alphas self ! j = to_torch bk (1 - bs ! j) \<and>
        alphas_cum_prod self ! j = to_torch bk (\<Prod>k\<le>j. 1 - bs ! k) \<and>
        sqrt_alphas_cum_prod self ! j = to_torch bk (np_sqrt bk (\<Prod>k\<le>j. 1 - bs ! k)) \<and>
        sqrt_one_minus_alphas_cum_prod self ! j =
          to_torch bk (np_sqrt bk (1 - (\<Prod>k\<le>j. 1 - bs ! k))) \<and>
        reciprocal_sqrt_alphas self ! j = to_torch bk (np_sqrt bk (1 / (1 - bs ! j))) \<and>
        sigma self ! j = to_torch bk (np_sqrt bk (bs ! j)) \<and>
        alphas_cum_prod_prev (np_cumprod (map (\<lambda>b. 1 - b) bs)) ! j =
          (if j = 0 then 1 else \<Prod>k\<le>j - 1. 1 - bs ! k) \<and>
        remove_noise_coeff self ! j =
          to_torch bk
            (bs ! j *
             (1 - (if j = 0 then 1 else \<Prod>k\<le>j - 1. 1 - bs ! k) /
                  np_sqrt bk (1 - (\<Prod>k\<le>j. 1 - bs ! k))))" if j: "j < length bs" for j
    using j by (simp add: f acp_nth prev_nth schedule_rnc_nth del: prod.atMost_Suc)
  with lens show ?thesis by blast
qed

theorem schedule_coefficients_witness:
  "\<exists>self :: (real, nat) GaussianDiffusion.
     GaussianDiffusion_init demo_backend 5 5 11 (Some [1/2, 1/4]) ''l2'' 4 ''none'' = Inr self \<and>
     num_time_steps self = 2 \<and> length (remove_noise_coeff self) = 2 \<and>
     (1::nat) < length [1/2, 1/4 :: real] \<and>
     betas self ! 1 = 1/4 \<and> alphas self ! 1 = 3/4 \<and> alphas_cum_prod self ! 1 = 3/8 \<and>
     sqrt_alphas_cum_prod self ! 1 = sqrt (3/8) \<and>
     sqrt_one_minus_alphas_cum_prod self ! 1 = sqrt (5/8) \<and>
     reciprocal_sqrt_alphas self ! 1 = sqrt (4/3) \<and>
     sigma self ! 1 = sqrt (1/4) \<and>
     remove_noise_coeff self ! 1 = 1/4 * (1 - (1/2) / sqrt (5/8))"
proof -
  obtain self :: "(real, nat) GaussianDiffusion" where init:
    "GaussianDiffusion_init demo_backend 5 5 11 (Some [1/2, 1/4]) ''l2'' 4 ''none'' = Inr self"
    using demo_init_none by blast
  have j: "(1::nat) < length [1/2, 1/4 :: real]" by simp
  from schedule_coefficients[OF init] j show ?thesis
    using init by (intro exI[of _ self]) (simp add: demo_backend_def)
qed





text \<open>The conversion to float32 preserves the order, and 0 and 1.\<close>

lemma bit_length_0 [simp]: "bit_length 0 = 0"
  by (simp add: bit_length.simps)

lemma bit_length_pos: "0 < n \<Longrightarrow> bit_length n = Suc (bit_length (n div 2))"
  by (subst bit_length.simps) simp




lemma bit_length_power2: "bit_length (2 ^ k) = Suc k"
  by (induction k) (simp_all add: bit_length_pos)












lemma round_half_even_0 [simp]: "round_half_even 0 = 0"
  by (simp add: round_half_even_def)

lemma grid_0 [simp]: "grid 0 = 0"
  by (simp add: grid_def)

lemma float32_round_0 [simp]: "float32_round 0 = 0"
  by (simp add: float32_round_def)

lemma round_half_even_numeral [simp]: "round_half_even (numeral k) = numeral k"
  by (simp add: round_half_even_def)

lemma float32_round_1 [simp]: "float32_round 1 = 1"
proof -
  have "nat \<lfloor>(2::real) ^ 149\<rfloor> = 2 ^ 149"
    by (metis floor_of_nat nat_int of_nat_numeral of_nat_power)
  then have bl: "bit_length (nat \<lfloor>(2::real) ^ 149\<rfloor>) = 150"
    by (simp only: bit_length_power2)
  show ?thesis
    unfolding float32_round_def grid_def Let_def abs_one mult_1 sgn_1 bl by simp
qed










section \<open>Sampling\<close>

text \<open>The timesteps of the loop, and the loop step by step.\<close>

lemma range_down_0 [simp]: "range_down (- 1) (- 1) = []"
  by (subst range_down.simps) simp

lemma range_down_Suc: "range_down (int (Suc k) - 1) (- 1) = int k # range_down (int k - 1) (- 1)"
  by (subst range_down.simps) simp

lemma range_down_eq: "range_down (int n - 1) (- 1) = map int (rev [0..<n])"
  by (induction n) (simp_all add: range_down_0 range_down_Suc del: of_nat_Suc)

lemma sample_loop_0 [simp]: "sample_loop self h b 0 x w = (Inr x, w)"
  by (simp add: sample_loop_def)

lemma sample_loop_Suc:
  "sample_loop self h b (Suc t) x w =
     (case sample_body self h b (int t) x w of
        (Inl e, w') \<Rightarrow> (Inl e, w')
      | (Inr x', w') \<Rightarrow> sample_loop self h b t x' w')"
  unfolding sample_loop_def range_down_Suc by simp

lemma sample_enabled:
  assumes "diffusion_type self \<noteq> ''none''"
  shows "sample self noise hist w =
     (if shape hist = [] then (Inl IndexError, w)
      else case sample_loop self hist (shape hist ! 0) (num_time_steps self) noise w of
             (Inl e, w') \<Rightarrow> (Inl e, w')
           | (Inr x, w') \<Rightarrow> (final_norm self x, w'))"
  using assms unfolding sample_def Let_def sample_loop_def final_norm_def by simp

lemma sample_body_Inl:
  assumes "remove_noise self x (replicate b t) h st = (Inl e, st')"
  shows "sample_body self h b t x (st, g) = (Inl e, (st', g))"
  using assms by (simp add: sample_body.simps)

lemma sample_body_last:
  assumes "remove_noise self x (replicate b 0) h st = (Inr y, st')"
  shows "sample_body self h b 0 x (st, g) = (Inr y, (st', g))"
  using assms by (simp add: sample_body.simps)

lemma iadd_same_shape:
  assumes "shape z = shape y"
  shows "iadd y z =
         Inr \<lparr>shape = shape y, elem = (\<lambda>idx. elem y idx + elem z (bidx (shape y) idx))\<rparr>"
  using assms by (simp add: iadd_def broadcast_shapes_same)

text \<open>
  A step with \<open>t > 0\<close>, entry by entry: the entries of \<open>remove_noise(state, t, history)\<close>
  plus \<open>sigma[t]\<close> times the entries of the next draw.
\<close>

lemma sample_body_add_noise:
  fixes self :: "('a::{plus,minus,times}, 's) GaussianDiffusion"
  assumes rn: "remove_noise self x (replicate b (int t)) h st = (Inr y, st')"
    and shp: "shape y = b # rest"
    and t: "0 < t" "t < length (sigma self)"
  shows "\<exists>z. sample_body self h b (int t) x (st, g) = (Inr z, (st', stl g)) \<and>
             shape z = shape y \<and>
             (\<forall>idx. valid_idx (shape y) idx \<longrightarrow>
                elem z idx = elem y idx + sigma self ! t * normal (shd g) idx)"
proof -
  let ?tb = "replicate b (int t)"
  let ?n = "\<lparr>shape = shape y, elem = normal (shd g)\<rparr>"
  let ?row = "b # replicate (length rest) 1"
  have e: "extract_fn (sigma self) ?tb (shape y) =
      Inr \<lparr>shape = b # replicate (length (shape ?n) - 1) 1,
           elem = (\<lambda>idx. sigma self ! nat (?tb ! (idx ! 0)))\<rparr>"
    using extract_fn_ok[of ?tb "sigma self" "shape y"] t by simp
  have sn: "shape ?n = b # rest"
    using shp by simp
  let ?sz = "\<lparr>shape = shape ?n,
       elem = (\<lambda>idx. sigma self ! nat (?tb ! (bidx ?row idx ! 0)) *
                        elem ?n (bidx (shape ?n) idx))\<rparr>"
  have m: "binop (*) \<lparr>shape = b # replicate (length (shape ?n) - 1) 1,
                       elem = (\<lambda>idx. sigma self ! nat (?tb ! (idx ! 0)))\<rparr> ?n = Inr ?sz"
    by (rule binop_row_left[OF sn])
  let ?z = "\<lparr>shape = shape y, elem = (\<lambda>idx. elem y idx + elem ?sz (bidx (shape y) idx))\<rparr>"
  have a: "iadd y ?sz = Inr ?z"
    by (rule iadd_same_shape) simp
  have run: "sample_body self h b (int t) x (st, g) = (Inr ?z, (st', stl g))"
    unfolding sample_body.simps Let_def rn prod.case sum.case e randn_like_def m bindE_Inr a
    using t(1) by simp
  have "elem ?z idx = elem y idx + sigma self ! t * normal (shd g) idx"
    if v: "valid_idx (shape y) idx" for idx
  proof -
    have i: "bidx (shape y) idx = idx"
      using v by (rule bidx_valid)
    have r: "bidx (b # replicate (length rest) (Suc 0)) idx ! 0 = idx ! 0"
      using v unfolding shp by (rule bidx_row_0)
    have "idx ! 0 < b"
      using v unfolding shp by (cases idx) (auto simp: valid_idx_def)
    then have "?tb ! (idx ! 0) = int t"
      by simp
    then show ?thesis
      by (simp add: i r)
  qed
  with run show ?thesis
    by (intro exI[of _ ?z]) simp
qed

text \<open>What a step that returns has done to the denoiser and to the generator.\<close>

lemma sample_body_Inr:
  assumes "sample_body self h b t x (st, g) = (Inr y, (st', g'))"
  shows "\<exists>r. remove_noise self x (replicate b t) h st = (Inr r, st') \<and>
             g' = (if 0 < t then stl g else g)"
  using assms unfolding sample_body.simps Let_def randn_like_def
  by (auto split: prod.splits sum.splits if_splits)

lemma remove_noise_logging:
  assumes "diffusion_model self = Some (logging f)"
    and "remove_noise self x t h calls = (r, calls')"
  shows "calls' = calls @ [t]"
  using assms by (auto simp: remove_noise_def logging_def split: sum.splits)

lemma sample_loop_logging:
  assumes dm: "diffusion_model self = Some (logging f)"
  shows "sample_loop self h b n x (calls, g) = (Inr y, (calls', g')) \<Longrightarrow>
         calls' = calls @ map (\<lambda>t. replicate b (int t)) (rev [0..<n]) \<and>
         g' = (stl ^^ (n - 1)) g"
proof (induction n arbitrary: x calls g)
  case 0
  then show ?case by simp
next
  case (Suc t)
  from Suc.prems obtain x1 c1 g1 where
    body: "sample_body self h b (int t) x (calls, g) = (Inr x1, (c1, g1))"
    and rec: "sample_loop self h b t x1 (c1, g1) = (Inr y, (calls', g'))"
    unfolding sample_loop_Suc by (auto split: prod.splits sum.splits)
  from sample_body_Inr[OF body] obtain r where
    rn: "remove_noise self x (replicate b (int t)) h calls = (Inr r, c1)"
    and g1: "g1 = (if 0 < t then stl g else g)"
    by auto
  have c1: "c1 = calls @ [replicate b (int t)]"
    using dm rn by (rule remove_noise_logging)
  from Suc.IH[OF rec] have ih: "calls' = c1 @ map (\<lambda>t. replicate b (int t)) (rev [0..<t])"
    "g' = (stl ^^ (t - 1)) g1" by simp_all
  have "(stl ^^ (t - 1)) g1 = (stl ^^ t) g"
    unfolding g1 by (cases t) (simp_all add: funpow_swap1)
  with ih c1 show ?case
    by simp
qed

text \<open>
  Claim C1.  With \<open>diffusion_type "none"\<close>, \<open>sample\<close> returns its input tensor and
  touches neither the denoiser nor the generator.  With diffusion enabled (and a history
  that has a batch axis) \<open>sample\<close> runs its loop for \<open>num_time_steps\<close> steps and passes the
  result through the final normalisation.  The loop, with \<open>t + 1\<close> steps to go, calls
  \<open>remove_noise(state, t, history)\<close>, \<open>t\<close> repeated once per batch row; an exception of
  that call ends the loop.  At \<open>t = 0\<close> the result of the call is the result of the loop
  and no draw is taken.  At \<open>t > 0\<close> the next draw is taken, the new state has at every
  index the entry of the result plus \<open>sigma[t]\<close> times the entry of the draw, and the loop
  goes on with \<open>t\<close> steps to go.  With a stub denoiser that records its calls, a run that
  returns has called the denoiser exactly \<open>num_time_steps\<close> times, with the timesteps
  \<open>num_time_steps - 1, ..., 0\<close> in this order, and has consumed one draw for every
  \<open>t > 0\<close>.
\<close>

theorem sample_reverse_loop:
  fixes self :: "('a::{plus,minus,times}, 's) GaussianDiffusion"
    and self' :: "('a, int list list) GaussianDiffusion"
  shows "(diffusion_type self = ''none'' \<longrightarrow> sample self noise h w = (Inr noise, w)) \<and>
         (diffusion_type self \<noteq> ''none'' \<and> shape h \<noteq> [] \<longrightarrow>
            sample self noise h w =
              (case sample_loop self h (shape h ! 0) (num_time_steps self) noise w of
                 (Inl e, w') \<Rightarrow> (Inl e, w')
               | (Inr x, w') \<Rightarrow> (final_norm self x, w'))) \<and>
         sample_loop self h b 0 x (st, g) = (Inr x, (st, g)) \<and>
         (\<forall>e st'. remove_noise self x (replicate b (int t)) h st = (Inl e, st') \<longrightarrow>
            sample_loop self h b (Suc t) x (st, g) = (Inl e, (st', g))) \<and>
         (\<forall>r st'. remove_noise self x (replicate b 0) h st = (Inr r, st') \<longrightarrow>
            sample_loop self h b (Suc 0) x (st, g) = (Inr r, (st', g))) \<and>
         (\<forall>r st' rest.
            0 < t \<and> t < length (sigma self) \<and> shape r = b # rest \<and>
            remove_noise self x (replicate b (int t)) h st = (Inr r, st') \<longrightarrow>
            (\<exists>z. shape z = shape r \<and>
                  (\<forall>idx. valid_idx (shape r) idx \<longrightarrow>
                     elem z idx = elem r idx + sigma self ! t * normal (shd g) idx) \<and>
                  sample_loop self h b (Suc t) x (st, g) =
                    sample_loop self h b t z (st', stl g))) \<and>
         (diffusion_type self' \<noteq> ''none'' \<and> diffusion_model self' = Some (logging f) \<and>
          sample self' noise h (calls, g) = (Inr y, (calls', g')) \<longrightarrow>
            calls' = calls @ map (\<lambda>t. replicate (shape h ! 0) (int t))
                                (rev [0..<num_time_steps self']) \<and>
            length calls' = length calls + num_time_steps self' \<and>
            g' = (stl ^^ (num_time_steps self' - 1)) g)"
proof (intro conjI impI allI)
  assume "diffusion_type self = ''none''"
  then show "sample self noise h w = (Inr noise, w)"
    by (simp add: sample_def)
next
  assume "diffusion_type self \<noteq> ''none'' \<and> shape h \<noteq> []"
  then show "sample self noise h w =
              (case sample_loop self h (shape h ! 0) (num_time_steps self) noise w of
                 (Inl e, w') \<Rightarrow> (Inl e, w')
               | (Inr x, w') \<Rightarrow> (final_norm self x, w'))"
    by (simp add: sample_enabled)
next
  show "sample_loop self h b 0 x (st, g) = (Inr x, (st, g))"
    by simp
next
  fix e st'
  assume "remove_noise self x (replicate b (int t)) h st = (Inl e, st')"
  then show "sample_loop self h b (Suc t) x (st, g) = (Inl e, (st', g))"
    unfolding sample_loop_Suc by (simp add: sample_body_Inl)
next
  fix r st'
  assume "remove_noise self x (replicate b 0) h st = (Inr r, st')"
  from sample_body_last[OF this] show "sample_loop self h b (Suc 0) x (st, g) = (Inr r, (st', g))"
    unfolding sample_loop_Suc by simp
next
  fix r st' rest
  assume a: "0 < t \<and> t < length (sigma self) \<and> shape r = b # rest \<and>
             remove_noise self x (replicate b (int t)) h st = (Inr r, st')"
  then have rn: "remove_noise self x (replicate b (int t)) h st = (Inr r, st')"
    and shp: "shape r = b # rest" and t: "0 < t" "t < length (sigma self)"
    by simp_all
  from sample_body_add_noise[OF rn shp t, of g] obtain z where
    z: "sample_body self h b (int t) x (st, g) = (Inr z, (st', stl g))"
    "shape z = shape r"
    "\<forall>idx. valid_idx (shape r) idx \<longrightarrow>
       elem z idx = elem r idx + sigma self ! t * normal (shd g) idx"
    by blast
  have "sample_loop self h b (Suc t) x (st, g) = sample_loop self h b t z (st', stl g)"
    unfolding sample_loop_Suc z(1) by simp
  with z(2,3) show "\<exists>z. shape z = shape r \<and>
                  (\<forall>idx. valid_idx (shape r) idx \<longrightarrow>
                     elem z idx = elem r idx + sigma self ! t * normal (shd g) idx) \<and>
                  sample_loop self h b (Suc t) x (st, g) =
                    sample_loop self h b t z (st', stl g)"
    by blast
next
  assume a: "diffusion_type self' \<noteq> ''none'' \<and> diffusion_model self' = Some (logging f) \<and>
          sample self' noise h (calls, g) = (Inr y, (calls', g'))"
  then have dt: "diffusion_type self' \<noteq> ''none''" by simp
  from a have "shape h \<noteq> []"
    by (auto simp: sample_enabled[OF dt] split: if_splits)
  with a obtain x where
    "sample_loop self' h (shape h ! 0) (num_time_steps self') noise (calls, g)
       = (Inr x, (calls', g'))"
    by (auto simp: sample_enabled[OF dt] split: prod.splits sum.splits)
  from sample_loop_logging[OF _ this] a
  have r: "calls' = calls @ map (\<lambda>t. replicate (shape h ! 0) (int t))
                                (rev [0..<num_time_steps self'])"
         "g' = (stl ^^ (num_time_steps self' - 1)) g"
    by simp_all
  show "calls' = calls @ map (\<lambda>t. replicate (shape h ! 0) (int t))
                                (rev [0..<num_time_steps self'])" by (rule r)
  show "length calls' = length calls + num_time_steps self'" by (simp add: r(1))
  show "g' = (stl ^^ (num_time_steps self' - 1)) g" by (rule r)
qed

text \<open>A run of \<open>sample\<close> on the concrete instance, with the recording stub.\<close>

lemma swap_1_last_4 [simp]: "swap_1_last [a, b, c, d] = [a, d, c, b]"
  by (simp add: swap_1_last_def)

lemmas tensor_eval = extract_fn_def binop_def broadcast_shapes_def pad_to_def iadd_def
  const_tensor_def transpose_1_last_def BatchNorm2d_forward_def BatchNorm2d_shape_def
  batch_norm_def numel_def Let_def

lemma demo_remove_noise_logging:
  fixes s :: "(real, int list list) GaussianDiffusion"
  assumes "diffusion_model s = Some (logging (\<lambda>x t h. Inr x))"
    and "length (remove_noise_coeff s) = 2" "length (reciprocal_sqrt_alphas s) = 2"
  shows "\<exists>r. remove_noise s (const_tensor [1, 1, 2, 5] 0) [1] (const_tensor [1, 1, 11, 5] 0) []
               = (Inr r, [[1]]) \<and>
             shape r = [1, 1, 2, 5] \<and> elem r [0, 0, 1, 4] = 0"
  using assms
  by (simp add: remove_noise_def logging_def tensor_eval bidx_def)

lemma demo_sample_logging:
  fixes s :: "(real, int list list) GaussianDiffusion"
  assumes "diffusion_model s = Some (logging (\<lambda>x t h. Inr x))"
    and "length (remove_noise_coeff s) = 2" "length (reciprocal_sqrt_alphas s) = 2"
    and "length (sigma s) = 2" "num_time_steps s = 2" "diffusion_type s = ''unet''"
    and "training s" "num_features (norm_output s) = 5"
  shows "\<exists>y. sample s (const_tensor [1, 1, 2, 5] 0) (const_tensor [1, 1, 11, 5] 0) ([], demo_rng)
          = (Inr y, ([[1], [0]], stl demo_rng))"
proof -
  have "\<exists>x. sample_loop s (const_tensor [1, 1, 11, 5] 0) 1 (Suc (Suc 0))
            (const_tensor [1, 1, 2, 5] 0) ([], demo_rng)
          = (Inr x, ([[1], [0]], stl demo_rng)) \<and> shape x = [1, 1, 2, 5]"
    using assms(1-4)
    by (simp add: sample_loop_Suc sample_body.simps randn_like_def remove_noise_def logging_def
        tensor_eval)
  then obtain x where x: "sample_loop s (const_tensor [1, 1, 11, 5] 0) 1 (Suc (Suc 0))
            (const_tensor [1, 1, 2, 5] 0) ([], demo_rng)
          = (Inr x, ([[1], [0]], stl demo_rng))" "shape x = [1, 1, 2, 5]"
    by blast
  have sh: "shape (const_tensor [1, 1, 11, 5] (0::real)) \<noteq> []"
    "shape (const_tensor [1, 1, 11, 5] (0::real)) ! 0 = 1"
    by (simp_all add: const_tensor_def)
  have dt: "diffusion_type s \<noteq> ''none''"
    by (simp add: assms(6))
  have n: "num_time_steps s = Suc (Suc 0)"
    by (simp add: assms(5))
  show ?thesis
    unfolding sample_enabled[OF dt] sh(2) n x(1) using sh(1) assms(7,8) x(2)
    by (simp add: final_norm_def transpose_1_last_def BatchNorm2d_forward_def
        BatchNorm2d_shape_def batch_norm_def numel_def)
qed

theorem sample_reverse_loop_witness:
  "\<exists>(s0 :: (real, int list list) GaussianDiffusion) (s1 :: (real, int list list) GaussianDiffusion)
      r z y calls' g'.
     GaussianDiffusion_init demo_backend 5 5 11 (Some [1/2, 1/4]) ''l2'' 4 ''none'' = Inr s0 \<and>
     sample s0 (const_tensor [1, 1, 2, 5] 0) (const_tensor [1, 1, 11, 5] 0) ([], demo_rng) =
       (Inr (const_tensor [1, 1, 2, 5] 0), ([], demo_rng)) \<and>
     GaussianDiffusion_init demo_backend 5 5 11 (Some [1/2, 1/4]) ''l2'' 4 ''unet'' = Inr s1 \<and>
     remove_noise (s1\<lparr>diffusion_model := Some (logging (\<lambda>x t h. Inr x))\<rparr>)
       (const_tensor [1, 1, 2, 5] 0) [1] (const_tensor [1, 1, 11, 5] 0) [] = (Inr r, [[1]]) \<and>
     elem r [0, 0, 1, 4] = 0 \<and>
     shape z = [1, 1, 2, 5] \<and> elem z [0, 0, 1, 4] = 0 + sqrt (1 / 4) * 1 \<and>
     sample_loop (s1\<lparr>diffusion_model := Some (logging (\<lambda>x t h. Inr x))\<rparr>)
       (const_tensor [1, 1, 11, 5] 0) 1 2 (const_tensor [1, 1, 2, 5] 0) ([], demo_rng) =
     sample_loop (s1\<lparr>diffusion_model := Some (logging (\<lambda>x t h. Inr x))\<rparr>)
       (const_tensor [1, 1, 11, 5] 0) 1 1 z ([[1]], stl demo_rng) \<and>
     sample (s1\<lparr>diffusion_model := Some (logging (\<lambda>x t h. Inr x))\<rparr>)
       (const_tensor [1, 1, 2, 5] 0) (const_tensor [1, 1, 11, 5] 0) ([], demo_rng) =
       (Inr y, (calls', g')) \<and>
     calls' = [[1], [0]] \<and> length calls' = 2 \<and> g' = stl demo_rng"
proof -
  let ?X = "const_tensor [1, 1, 2, 5] (0::real)" and ?H = "const_tensor [1, 1, 11, 5] (0::real)"
  obtain s0 :: "(real, int list list) GaussianDiffusion" where i0:
    "GaussianDiffusion_init demo_backend 5 5 11 (Some [1/2, 1/4]) ''l2'' 4 ''none'' = Inr s0"
    using demo_init_none by blast
  obtain s1 :: "(real, int list list) GaussianDiffusion" where i1:
    "GaussianDiffusion_init demo_backend 5 5 11 (Some [1/2, 1/4]) ''l2'' 4 ''unet'' = Inr s1"
    using demo_init_unet by blast
  note f0 = init_InrD[OF i0] and f1 = init_InrD[OF i1]
  let ?s = "s1\<lparr>diffusion_model := Some (logging (\<lambda>x t h. Inr x))\<rparr>"
  obtain y calls' g' where run: "sample ?s ?X ?H ([], demo_rng) = (Inr y, (calls', g'))"
    using demo_sample_logging[of ?s] by (auto simp: f1)
  obtain r where r: "remove_noise ?s ?X [1] ?H [] = (Inr r, [[1]])"
    "shape r = [1, 1, 2, 5]" "elem r [0, 0, 1, 4] = 0"
    using demo_remove_noise_logging[of ?s] by (auto simp: f1)
  note inst = sample_reverse_loop[where self = ?s and self' = ?s and noise = ?X and h = ?H
      and w = "([], demo_rng)" and b = 1 and t = 1 and x = ?X and st = "[]" and g = demo_rng
      and f = "\<lambda>x t h. Inr x" and calls = "[]" and y = y and calls' = calls' and g' = g']
  have a: "sample s0 ?X ?H ([], demo_rng) = (Inr ?X, ([], demo_rng))"
    using sample_reverse_loop[where self = s0 and self' = ?s and noise = ?X and h = ?H
        and w = "([], demo_rng)"]
    by (simp add: f0)
  have step: "0 < (1::nat) \<and> 1 < length (sigma ?s) \<and> shape r = 1 # [1, 2, 5] \<and>
      remove_noise ?s ?X (replicate 1 (int 1)) ?H [] = (Inr r, [[1]])"
    using r by (simp add: f1)
  from inst step obtain z where z: "shape z = shape r"
    "\<forall>idx. valid_idx (shape r) idx \<longrightarrow>
       elem z idx = elem r idx + sigma ?s ! 1 * normal (shd demo_rng) idx"
    "sample_loop ?s ?H 1 (Suc 1) ?X ([], demo_rng) = sample_loop ?s ?H 1 1 z ([[1]], stl demo_rng)"
    by blast
  have v: "valid_idx (shape r) [0, 0, 1, 4]"
    by (simp add: r(2) valid_idx_def)
  have sg: "sigma ?s ! 1 = sqrt (1 / 4)"
    by (simp add: f1 demo_backend_def)
  from z(2) v have "elem z [0, 0, 1, 4] =
      elem r [0, 0, 1, 4] + sigma ?s ! 1 * normal (shd demo_rng) [0, 0, 1, 4]"
    by blast
  then have z1: "shape z = [1, 1, 2, 5]" "elem z [0, 0, 1, 4] = 0 + sqrt (1 / 4) * 1"
    unfolding r(3) sg using z(1) r(2) by (simp_all add: demo_rng_def)
  have z2: "sample_loop ?s ?H 1 2 ?X ([], demo_rng) = sample_loop ?s ?H 1 1 z ([[1]], stl demo_rng)"
    using z(3) by (simp add: numeral_2_eq_2)
  have c: "calls' = [] @ map (\<lambda>t. replicate (shape ?H ! 0) (int t)) (rev [0..<num_time_steps ?s]) \<and>
           length calls' = length ([] :: int list list) + num_time_steps ?s \<and>
           g' = (stl ^^ (num_time_steps ?s - 1)) demo_rng"
    using inst run by (simp add: f1)
  have n: "num_time_steps ?s = Suc (Suc 0)" by (simp add: f1)
  have h: "shape ?H ! 0 = 1" by (simp add: const_tensor_def)
  from c have c': "calls' = [[1], [0]]" "length calls' = 2" "g' = stl demo_rng"
    unfolding n h by (simp_all add: upt_rec)
  from i0 a i1 r(1,3) z1 z2 run c' show ?thesis by blast
qed


section \<open>The training loss\<close>

text \<open>The sum over all entries of a tensor with four axes, as a nested sum.\<close>

lemma sum_list_indices_Nil: "sum_list (map f (indices [])) = f []"
  by simp

lemma sum_list_concat_map:
  fixes f :: "'x \<Rightarrow> 'a::monoid_add"
  shows "sum_list (map f (concat xss)) = sum_list (map (\<lambda>xs. sum_list (map f xs)) xss)"
  by (induction xss) simp_all

lemma sum_list_indices_Cons:
  fixes f :: "nat list \<Rightarrow> 'a::comm_monoid_add"
  shows "sum_list (map f (indices (n # ns))) =
         (\<Sum>i<n. sum_list (map (\<lambda>idx. f (i # idx)) (indices ns)))"
proof -
  have "sum_list (map f (indices (n # ns))) =
        sum_list (map (\<lambda>i. sum_list (map (\<lambda>idx. f (i # idx)) (indices ns))) [0..<n])"
    by (simp add: sum_list_concat_map comp_def)
  also have "\<dots> = (\<Sum>i<n. sum_list (map (\<lambda>idx. f (i # idx)) (indices ns)))"
    by (simp add: interv_sum_list_conv_sum_set_nat atLeast0LessThan)
  finally show ?thesis .
qed

lemma sum_list_indices_4:
  fixes f :: "nat list \<Rightarrow> 'a::comm_monoid_add"
  shows "sum_list (map f (indices [n1, n2, n3, n4])) =
         (\<Sum>b<n1. \<Sum>a<n2. \<Sum>s<n3. \<Sum>c<n4. f [b, a, s, c])"
  by (simp only: sum_list_indices_Cons sum_list_indices_Nil)

lemma valid_idx_4: "valid_idx [n1, n2, n3, n4] [b, a, s, c] \<longleftrightarrow> b < n1 \<and> a < n2 \<and> s < n3 \<and> c < n4"
  by (simp add: valid_idx_def)

lemma mask_index:
  "a < n2 \<Longrightarrow> unravel [n1, n2] (ravel [n1, n2, 1, 1] [b, a, 0, 0]) = [b, a]"
  by simp

lemma perturb_x_shape:
  fixes self :: "('a::{plus,times}, 's) GaussianDiffusion"
  assumes "perturb_x self x0 t noise = Inr px" "shape x0 = length t # rest" "shape noise = shape x0"
  shows "shape px = shape x0"
proof -
  from assms(1) obtain c1 a c2 b where
    c1: "extract_fn (sqrt_alphas_cum_prod self) t (shape x0) = Inr c1"
    and a: "binop (*) c1 x0 = Inr a"
    and c2: "extract_fn (sqrt_one_minus_alphas_cum_prod self) t (shape x0) = Inr c2"
    and b: "binop (*) c2 noise = Inr b"
    and r: "binop (+) a b = Inr px"
    unfolding perturb_x_def bindE_Inr_iff by blast
  have s1: "shape c1 = length t # replicate (length rest) (Suc 0)"
    using c1 assms(2) by (auto simp: extract_fn_def split: if_splits)
  have s2: "shape c2 = length t # replicate (length rest) (Suc 0)"
    using c2 assms(2) by (auto simp: extract_fn_def split: if_splits)
  have sa: "shape a = shape x0"
    using a by (auto simp: binop_def s1 assms(2) broadcast_shapes_row)
  have sb: "shape b = shape x0"
    using b by (auto simp: binop_def s2 assms(2,3) broadcast_shapes_row)
  show ?thesis
    using r by (auto simp: binop_def sa sb broadcast_shapes_same)
qed

lemma get_losses_value:
  fixes self :: "('a::linordered_field, 's) GaussianDiffusion"
  assumes en: "diffusion_type self \<noteq> ''none''"
    and shp: "shape delt = [B, A, S, C]" "shape msk = [B, A]" "length t = B"
    and cfg: "his_delt_step self = int S" "input_dim self = int C"
    and px: "perturb_x self delt t \<lparr>shape = shape delt, elem = normal (shd g)\<rparr> = Inr px"
    and dm: "diffusion_model self = Some dm"
    and est: "dm (training self) st px t hist = (Inr est, st')" "shape est = shape delt"
  shows "get_losses self delt hist msk t (st, g) =
           (Inr (torch_div
                  (\<Sum>b<B. \<Sum>a<A. \<Sum>s<S. \<Sum>c<C.
                     (elem est [b, a, s, c] - normal (shd g) [b, a, s, c])\<^sup>2 * elem msk [b, a])
                  (\<Sum>b<B. \<Sum>a<A. \<Sum>s<S. \<Sum>c<C. elem msk [b, a])),
            (st', stl g))"
proof -
  let ?noise = "\<lparr>shape = shape delt, elem = normal (shd g)\<rparr>"
  let ?s = "[B, A, S, C]"
  have spx: "shape px = ?s"
    using perturb_x_shape[OF px] shp by simp
  let ?L = "\<lparr>shape = ?s, elem = (\<lambda>idx. (elem est (bidx ?s idx) - normal (shd g) (bidx ?s idx))\<^sup>2)\<rparr>"
  have L: "mse_loss est ?noise = Inr ?L"
    unfolding mse_loss_def by (subst binop_same_shape) (simp_all add: est shp)
  let ?m = "\<lparr>shape = [B, A, 1, 1],
             elem = (\<lambda>idx. elem msk (unravel (shape msk) (ravel [B, A, 1, 1] idx)))\<rparr>"
  have m: "view msk [B, A, 1, 1] = Inr ?m"
    by (simp add: view_def numel_def shp)
  let ?M = "\<lparr>shape = ?s, elem = (\<lambda>idx. elem ?m (map2 (\<lambda>i n. i mod n) idx (shape ?m)))\<rparr>"
  have M: "repeat ?m [1, 1, int S, int C] = Inr ?M"
    by (simp add: repeat_def)
  let ?LM = "\<lparr>shape = ?s, elem = (\<lambda>idx. elem ?L (bidx ?s idx) * elem ?M (bidx ?s idx))\<rparr>"
  have LM: "binop (*) ?L ?M = Inr ?LM"
    by (subst binop_same_shape) simp_all
  have run: "get_losses self delt hist msk t (st, g) =
      (Inr (torch_div (tsum ?LM) (tsum ?M)), (st', stl g))"
    unfolding get_losses.simps randn_like_def
    using en m M LM by (simp add: px dm est spx L cfg Let_def)
  have b4: "bidx ?s [b, a, s, c] = [b, a, s, c]" if "b < B" "a < A" "s < S" "c < C" for b a s c
    by (rule bidx_valid) (simp add: valid_idx_def that)
  have M4: "elem ?M [b, a, s, c] = elem msk [b, a]" if "b < B" "a < A" "s < S" "c < C" for b a s c
    using that by (simp add: shp)
  have num: "tsum ?LM = (\<Sum>b<B. \<Sum>a<A. \<Sum>s<S. \<Sum>c<C.
                     (elem est [b, a, s, c] - normal (shd g) [b, a, s, c])\<^sup>2 * elem msk [b, a])"
    unfolding tsum_def tensor.simps sum_list_indices_4
    by (intro sum.cong refl) (simp add: b4 shp)
  have den: "tsum ?M = (\<Sum>b<B. \<Sum>a<A. \<Sum>s<S. \<Sum>c<C. elem msk [b, a])"
    unfolding tsum_def tensor.simps sum_list_indices_4
    by (intro sum.cong refl) (simp add: shp)
  show ?thesis
    unfolding run num den ..
qed

lemma get_losses_loss_type:
  "get_losses (self\<lparr>loss_type := lt\<rparr>) delt hist msk t w = get_losses self delt hist msk t w"
  by (cases w)
    (simp add: get_losses.simps perturb_x_def
      cong: sum.case_cong prod.case_cong option.case_cong if_cong)


lemma demo_losses_setup:
  "\<exists>(s1 :: (real, nat) GaussianDiffusion) dm px est.
     GaussianDiffusion_init demo_backend 5 5 11 (Some [1/2, 1/4]) ''l2'' 4 ''unet'' = Inr s1 \<and>
     diffusion_type s1 \<noteq> ''none'' \<and>
     his_delt_step s1 = int 10 \<and> input_dim s1 = int 5 \<and>
     perturb_x s1 (const_tensor [2, 8, 10, 5] 0) [1, 0]
       \<lparr>shape = shape (const_tensor [2, 8, 10, 5] (0::real)), elem = normal (shd demo_rng)\<rparr> = Inr px \<and>
     diffusion_model s1 = Some dm \<and>
     dm (training s1) 0 px [1, 0] (const_tensor [2, 8, 11, 5] 0) = (Inr est, 0) \<and>
     shape est = shape (const_tensor [2, 8, 10, 5] (0::real))"
proof -
  obtain s1 :: "(real, nat) GaussianDiffusion" and m where init:
    "GaussianDiffusion_init demo_backend 5 5 11 (Some [1/2, 1/4]) ''l2'' 4 ''unet'' = Inr s1"
    and dm: "diffusion_model s1 = Some (UnetDiffusionModel_call demo_backend m)"
    and m: "UnetDiffusionModel_forward True m [2, 8, 10, 5] 2 [2, 8, 11, 5] = Inr [2, 8, 10, 5]"
    using demo_init_unet by blast
  note f = init_InrD[OF init]
  let ?D = "const_tensor [2, 8, 10, 5] (0::real)"
  let ?N = "\<lparr>shape = shape ?D, elem = normal (shd demo_rng)\<rparr>"
  have "\<exists>xt. perturb_x s1 ?D [1, 0] ?N = Inr xt \<and> shape xt = shape ?D \<and>
           (\<forall>idx. valid_idx (shape ?D) idx \<longrightarrow>
              elem xt idx =
                sqrt_alphas_cum_prod s1 ! nat ([1, 0] ! (idx ! 0)) * elem ?D idx +
                sqrt_one_minus_alphas_cum_prod s1 ! nat ([1, 0] ! (idx ! 0)) * elem ?N idx)"
    by (rule perturb_x_value[where rest = "[8, 10, 5]"]) (simp_all add: f const_tensor_def)
  then obtain px where px: "perturb_x s1 ?D [1, 0] ?N = Inr px" "shape px = [2, 8, 10, 5]"
    by (auto simp: const_tensor_def)
  have call: "UnetDiffusionModel_call demo_backend m (training s1) 0 px [1, 0]
                (const_tensor [2, 8, 11, 5] 0)
              = (Inr \<lparr>shape = [2, 8, 10, 5], elem = elem px\<rparr>, 0)"
    using m px(2)
    by (simp add: UnetDiffusionModel_call_def f const_tensor_def demo_backend_def numeral_2_eq_2)
  show ?thesis
    using init dm px(1) call by (intro exI[of _ s1] exI[of _ "UnetDiffusionModel_call demo_backend m"]
        exI[of _ px] exI[of _ "\<lparr>shape = [2, 8, 10, 5], elem = elem px\<rparr>"])
      (simp add: f const_tensor_def)
qed


text \<open>
  Claim C5.  On a controller with diffusion enabled, for a ground-truth delta of shape
  \<open>(B, A, S, C)\<close> with \<open>S\<close> and \<open>C\<close> the controller's \<open>his_delt_step\<close> and \<open>input_dim\<close>,
  a mask of shape \<open>(B, A)\<close> and one timestep per batch row: \<open>get_losses\<close> draws noise of
  the shape of the delta, perturbs the delta with it, runs the denoiser on the result, and
  when the denoiser returns an estimate of that shape it returns the quotient of the sum
  over all entries of \<open>(estimate - noise)\<^sup>2\<close> times the mask entry of the entry's batch
  row and agent, by the sum over all entries of that mask entry; the quotient is the one
  of the number type whenever the divisor is not zero, and an infinity or not-a-number
  otherwise.  The value of \<open>loss_type\<close> has no influence on the result.
\<close>

theorem get_losses_masked_mse:
  fixes self :: "('a::linordered_field, 's) GaussianDiffusion"
  assumes en: "diffusion_type self \<noteq> ''none''"
    and shp: "shape delt = [B, A, S, C]" "shape msk = [B, A]" "length t = B"
    and cfg: "his_delt_step self = int S" "input_dim self = int C"
    and px: "perturb_x self delt t \<lparr>shape = shape delt, elem = normal (shd g)\<rparr> = Inr px"
    and dm: "diffusion_model self = Some dm"
    and est: "dm (training self) st px t hist = (Inr est, st')" "shape est = shape delt"
    and num: "num = (\<Sum>b<B. \<Sum>a<A. \<Sum>s<S. \<Sum>c<C.
                 (elem est [b, a, s, c] - normal (shd g) [b, a, s, c])\<^sup>2 * elem msk [b, a])"
    and den: "den = (\<Sum>b<B. \<Sum>a<A. \<Sum>s<S. \<Sum>c<C. elem msk [b, a])"
  shows "get_losses self delt hist msk t (st, g) =
           (Inr (if den = 0 then (if num = 0 then NaN else if 0 < num then PosInf else NegInf)
                 else Finite (num / den)),
            (st', stl g)) \<and>
         get_losses (self\<lparr>loss_type := lt\<rparr>) delt hist msk t (st, g) =
           get_losses self delt hist msk t (st, g)"
  unfolding get_losses_loss_type get_losses_value[OF en shp cfg px dm est] num den
  by (simp add: torch_div_def)


theorem get_losses_masked_mse_witness:
  "\<exists>(s1 :: (real, nat) GaussianDiffusion) dm px est.
     GaussianDiffusion_init demo_backend 5 5 11 (Some [1/2, 1/4]) ''l2'' 4 ''unet'' = Inr s1 \<and>
     diffusion_type s1 \<noteq> ''none'' \<and>
     perturb_x s1 (const_tensor [2, 8, 10, 5] 0) [1, 0]
       \<lparr>shape = [2, 8, 10, 5], elem = normal (shd demo_rng)\<rparr> = Inr px \<and>
     diffusion_model s1 = Some dm \<and>
     dm (training s1) 0 px [1, 0] (const_tensor [2, 8, 11, 5] 0) = (Inr est, 0) \<and>
     get_losses s1 (const_tensor [2, 8, 10, 5] 0) (const_tensor [2, 8, 11, 5] 0)
         (const_tensor [2, 8] 1) [1, 0] (0, demo_rng) =
       (Inr (Finite
              ((\<Sum>b<2. \<Sum>a<8. \<Sum>s<10. \<Sum>c<5.
                  (elem est [b, a, s, c] - normal (shd demo_rng) [b, a, s, c])\<^sup>2 * 1) / 800)),
        (0, stl demo_rng)) \<and>
     get_losses (s1\<lparr>loss_type := ''l1''\<rparr>) (const_tensor [2, 8, 10, 5] 0)
         (const_tensor [2, 8, 11, 5] 0) (const_tensor [2, 8] 1) [1, 0] (0, demo_rng) =
       get_losses s1 (const_tensor [2, 8, 10, 5] 0) (const_tensor [2, 8, 11, 5] 0)
         (const_tensor [2, 8] 1) [1, 0] (0, demo_rng)"
proof -
  let ?D = "const_tensor [2, 8, 10, 5] (0::real)" and ?H = "const_tensor [2, 8, 11, 5] (0::real)"
  let ?M = "const_tensor [2, 8] (1::real)"
  obtain s1 :: "(real, nat) GaussianDiffusion" and dm px est where s:
    "GaussianDiffusion_init demo_backend 5 5 11 (Some [1/2, 1/4]) ''l2'' 4 ''unet'' = Inr s1"
    "diffusion_type s1 \<noteq> ''none''"
    "his_delt_step s1 = int 10" "input_dim s1 = int 5"
    "perturb_x s1 ?D [1, 0] \<lparr>shape = shape ?D, elem = normal (shd demo_rng)\<rparr> = Inr px"
    "diffusion_model s1 = Some dm"
    "dm (training s1) 0 px [1, 0] ?H = (Inr est, 0)"
    "shape est = shape ?D"
    using demo_losses_setup by blast
  have shp: "shape ?D = [2, 8, 10, 5]" "shape ?M = [2, 8]" "length [1, 0 :: int] = 2"
    by (simp_all add: const_tensor_def)
  define num where "num = (\<Sum>b<(2::nat). \<Sum>a<(8::nat). \<Sum>s<(10::nat). \<Sum>c<(5::nat).
                 (elem est [b, a, s, c] - normal (shd demo_rng) [b, a, s, c])\<^sup>2 * elem ?M [b, a])"
  have den: "(800::real) = (\<Sum>b<(2::nat). \<Sum>a<(8::nat). \<Sum>s<(10::nat). \<Sum>c<(5::nat). elem ?M [b, a])"
    by (simp add: const_tensor_def)
  from get_losses_masked_mse[OF s(2) shp s(3,4,5,6,7,8) num_def den, of "''l1''"] s(1,2,5,6,7)
  show ?thesis
    unfolding shp num_def by (intro exI[of _ s1] exI[of _ dm] exI[of _ px] exI[of _ est])
      (simp add: const_tensor_def)
qed


text \<open>
  Claim C8.  In the situation of C5, a mask with entries that are not negative and sum to
  zero makes \<open>get_losses\<close> return not-a-number: it reaches the division, which has no
  guard, with the dividend and the divisor both zero, and raises nothing.
\<close>

theorem get_losses_zero_mask_nan:
  fixes self :: "('a::linordered_field, 's) GaussianDiffusion"
  assumes en: "diffusion_type self \<noteq> ''none''"
    and shp: "shape delt = [B, A, S, C]" "shape msk = [B, A]" "length t = B"
    and cfg: "his_delt_step self = int S" "input_dim self = int C"
    and px: "perturb_x self delt t \<lparr>shape = shape delt, elem = normal (shd g)\<rparr> = Inr px"
    and dm: "diffusion_model self = Some dm"
    and est: "dm (training self) st px t hist = (Inr est, st')" "shape est = shape delt"
    and nonneg: "\<forall>b<B. \<forall>a<A. 0 \<le> elem msk [b, a]"
    and zero: "(\<Sum>b<B. \<Sum>a<A. elem msk [b, a]) = 0"
  shows "get_losses self delt hist msk t (st, g) = (Inr NaN, (st', stl g))"
proof -
  have inner: "0 \<le> (\<Sum>a<A. elem msk [b, a])" if "b \<in> {..<B}" for b
    using nonneg that by (auto intro!: sum_nonneg)
  have rows: "\<forall>b\<in>{..<B}. (\<Sum>a<A. elem msk [b, a]) = 0"
    using zero sum_nonneg_eq_0_iff[of "{..<B}" "\<lambda>b. \<Sum>a<A. elem msk [b, a]"] inner by simp
  have z: "elem msk [b, a] = 0" if "b < B" "a < A" for b a
  proof -
    have "0 \<le> elem msk [b, a']" if "a' \<in> {..<A}" for a'
      using nonneg \<open>b < B\<close> that by simp
    with rows \<open>b < B\<close> sum_nonneg_eq_0_iff[of "{..<A}" "\<lambda>a. elem msk [b, a]"]
    have "\<forall>a\<in>{..<A}. elem msk [b, a] = 0" by simp
    with \<open>a < A\<close> show ?thesis by simp
  qed
  have num: "(\<Sum>b<B. \<Sum>a<A. \<Sum>s<S. \<Sum>c<C.
                (elem est [b, a, s, c] - normal (shd g) [b, a, s, c])\<^sup>2 * elem msk [b, a]) = 0"
    by (simp add: z)
  have den: "(\<Sum>b<B. \<Sum>a<A. \<Sum>s<S. \<Sum>c<C. elem msk [b, a]) = 0"
    by (simp add: z)
  show ?thesis
    unfolding get_losses_value[OF en shp cfg px dm est] num den by (simp add: torch_div_def)
qed

theorem get_losses_zero_mask_nan_witness:
  "\<exists>(s1 :: (real, nat) GaussianDiffusion) dm px est.
     GaussianDiffusion_init demo_backend 5 5 11 (Some [1/2, 1/4]) ''l2'' 4 ''unet'' = Inr s1 \<and>
     diffusion_type s1 \<noteq> ''none'' \<and>
     perturb_x s1 (const_tensor [2, 8, 10, 5] 0) [1, 0]
       \<lparr>shape = [2, 8, 10, 5], elem = normal (shd demo_rng)\<rparr> = Inr px \<and>
     diffusion_model s1 = Some dm \<and>
     dm (training s1) 0 px [1, 0] (const_tensor [2, 8, 11, 5] 0) = (Inr est, 0) \<and>
     (\<Sum>b<(2::nat). \<Sum>a<(8::nat). elem (const_tensor [2, 8] (0::real)) [b, a]) = 0 \<and>
     get_losses s1 (const_tensor [2, 8, 10, 5] 0) (const_tensor [2, 8, 11, 5] 0)
         (const_tensor [2, 8] 0) [1, 0] (0, demo_rng) = (Inr NaN, (0, stl demo_rng))"
proof -
  let ?D = "const_tensor [2, 8, 10, 5] (0::real)" and ?H = "const_tensor [2, 8, 11, 5] (0::real)"
  let ?M = "const_tensor [2, 8] (0::real)"
  obtain s1 :: "(real, nat) GaussianDiffusion" and dm px est where s:
    "GaussianDiffusion_init demo_backend 5 5 11 (Some [1/2, 1/4]) ''l2'' 4 ''unet'' = Inr s1"
    "diffusion_type s1 \<noteq> ''none''"
    "his_delt_step s1 = int 10" "input_dim s1 = int 5"
    "perturb_x s1 ?D [1, 0] \<lparr>shape = shape ?D, elem = normal (shd demo_rng)\<rparr> = Inr px"
    "diffusion_model s1 = Some dm"
    "dm (training s1) 0 px [1, 0] ?H = (Inr est, 0)"
    "shape est = shape ?D"
    using demo_losses_setup by blast
  have shp: "shape ?D = [2, 8, 10, 5]" "shape ?M = [2, 8]" "length [1, 0 :: int] = 2"
    by (simp_all add: const_tensor_def)
  have nonneg: "\<forall>b<2. \<forall>a<8. 0 \<le> elem ?M [b, a]"
    by (simp add: const_tensor_def)
  have zero: "(\<Sum>b<(2::nat). \<Sum>a<(8::nat). elem ?M [b, a]) = 0"
    by (simp add: const_tensor_def)
  from get_losses_zero_mask_nan[OF s(2) shp s(3,4,5,6,7,8) nonneg zero] s(1,2,5,6,7) zero
  show ?thesis
    unfolding shp by (intro exI[of _ s1] exI[of _ dm] exI[of _ px] exI[of _ est]) simp
qed


section \<open>The training entry point\<close>

text \<open>
  With at least one timestep, \<open>forward\<close> draws one timestep inside \<open>[0, num_time_steps)\<close>
  per batch row and returns what \<open>get_losses\<close> returns on that draw; with none it raises.
\<close>

lemma randint_range:
  "randint 0 (int n) b g = (Inr t, g') \<Longrightarrow> length t = b \<and> (\<forall>k\<in>set t. 0 \<le> k \<and> k < int n)"
  by (auto simp: randint_def split: if_splits)

lemma forward_delegates:
  assumes "data ''predicted_his_traj_delt'' = Some delt"
    and "data ''predicted_his_traj'' = Some hist"
    and "data ''predicted_traj_mask'' = Some msk"
    and "shape delt = b # rest" and "0 < num_time_steps self"
  shows "\<exists>t. randint 0 (int (num_time_steps self)) b g = (Inr t, stl g) \<and>
             length t = b \<and> (\<forall>k\<in>set t. 0 \<le> k \<and> k < int (num_time_steps self)) \<and>
             forward self data (st, g) = get_losses self delt hist msk t (st, stl g)"
  using assms by (auto simp: forward.simps randint_def)

lemma forward_no_timesteps:
  assumes "data ''predicted_his_traj_delt'' = Some delt"
    and "data ''predicted_his_traj'' = Some hist"
    and "data ''predicted_traj_mask'' = Some msk"
    and "shape delt \<noteq> []" and "num_time_steps self = 0"
  shows "forward self data (st, g) = (Inl (RuntimeError RandomRange), (st, g))"
  using assms by (simp add: forward.simps randint_def)

text \<open>
  Claim C7.  On a disabled controller built from an empty beta array \<open>forward\<close> raises:
  the timesteps are drawn from the empty interval \<open>[0, 0)\<close> before \<open>get_losses\<close> is
  reached.  \<open>get_losses\<close> on the same controller returns the zero loss, and so does
  \<open>forward\<close> on a disabled controller that has a timestep.
\<close>

theorem forward_disabled_empty_betas:
  "run_forward demo_backend 5 5 11 (Some []) ''l2'' 4 ''none'' demo_batch (0::nat, demo_rng)
     = Inl (RuntimeError RandomRange) \<and>
   run_get_losses demo_backend 5 5 11 (Some []) ''l2'' 4 ''none''
       (const_tensor [2, 8, 10, 5] 0) (const_tensor [2, 8, 11, 5] 0) (const_tensor [2, 8] 1) []
       (0::nat, demo_rng)
     = Inr (Finite 0) \<and>
   run_forward demo_backend 5 5 11 (Some [1/2]) ''l2'' 4 ''none'' demo_batch (0::nat, demo_rng)
     = Inr (Finite 0)"
  by (simp add: run_forward_def run_get_losses_def init_Some_eq build_denoiser_def
      forward.simps get_losses.simps randint_def demo_batch_def const_tensor_def)

section \<open>Shapes through the denoisers and the final normalisation\<close>

lemma LinearLayer_init_Inr:
  "LinearLayer_init a b = Inr l \<longleftrightarrow> 0 \<le> a \<and> 0 \<le> b \<and> l = \<lparr>in_features = nat a, out_features = nat b\<rparr>"
  by (auto simp: LinearLayer_init_def)

lemma unet_init_fields:
  assumes "UnetDiffusionModel_init None i c 11 = Inr m"
  shows "UnetDiffusionModel.his_delt_step m = 10" "UnetDiffusionModel.input_dim m = i" "0 \<le> i"
    "layer1 m = \<lparr>in_features = nat (10 * i + c * 11 + 1), out_features = 64\<rparr>"
  using assms
  by (auto simp: UnetDiffusionModel_init_def Let_def bindE_Inr_iff LinearLayer_init_Inr list_get_def)


lemma flatten_from2_4: "flatten_from2 [b, a, s, d] = Inr [b, a, s * d]"
  by (simp add: flatten_from2_def)

lemma cat_last_width:
  "cat_last ([b, a, w] # r) = Inr s \<Longrightarrow> s = [b, a, w + sum_list (map last r)]"
  by (auto simp: cat_last_def split: if_splits)

lemma LinearLayer_forward_width:
  "LinearLayer_forward tr l x = Inr y \<Longrightarrow> x \<noteq> [] \<and> last x = in_features l"
  by (auto simp: LinearLayer_forward_def linear_def bindE_Inr_iff split: if_splits)

lemma unet_forward_mismatch:
  assumes init: "UnetDiffusionModel_init None i c 11 = Inr m"
    and w: "S * D + (H * C + 1) \<noteq> nat (10 * i + c * 11 + 1)"
  shows "\<exists>e. UnetDiffusionModel_forward tr m [b', a, S, D] nt [b, a', H, C] = Inl e"
proof (cases "UnetDiffusionModel_forward tr m [b', a, S, D] nt [b, a', H, C]")
  case (Inl e)
  then show ?thesis by blast
next
  case (Inr s)
  then obtain x e1 where x: "cat_last [[b', a, S * D], [b, a', H * C], [nt, a, 1]] = Inr x"
    and e1: "LinearLayer_forward tr (layer1 m) x = Inr e1"
    by (auto simp: UnetDiffusionModel_forward_def Let_def bindE_Inr_iff flatten_from2_4
        split: if_splits)
  from cat_last_width[OF x] have "x = [b', a, S * D + (H * C + 1)]" by simp
  with LinearLayer_forward_width[OF e1] unet_init_fields(4)[OF init] w show ?thesis by simp
qed

lemma cat_last_3: "cat_last [[b, a, w1], [b, a, w2], [b, a, w3]] = Inr [b, a, w1 + (w2 + w3)]"
  by (simp add: cat_last_def)

lemma cat_last_2: "cat_last [[b, a, w1], [b, a, w2]] = Inr [b, a, w1 + w2]"
  by (simp add: cat_last_def)

text \<open>
  On a trajectory, a history and a timestep batch with the same batch size and number of
  agents, the U-Net built for another width raises at its first linear layer.
\<close>

lemma unet_forward_mismatch_error:
  assumes init: "UnetDiffusionModel_init None i c 11 = Inr m"
    and w: "S * D + (H * C + 1) \<noteq> nat (10 * i + c * 11 + 1)"
  shows "UnetDiffusionModel_forward tr m [B, A, S, D] B [B, A, H, C] =
         Inl (RuntimeError MatmulMismatch)"
  using w unet_init_fields(4)[OF init]
  by (simp add: UnetDiffusionModel_forward_def Let_def flatten_from2_4 cat_last_3
      LinearLayer_forward_def linear_def)

lemma dit_init_fields:
  assumes "DitDiffusionModel_init i c 11 nb = Inr m"
  shows "DitDiffusionModel.his_delt_step m = 10" "0 \<le> i"
    "linear_output m = [nat (10 * i + 1), nat ((10 * i + 1) * 2), nat (10 * i + 1), nat (10 * i)]"
  using assms by (auto simp: DitDiffusionModel_init_def Let_def split: if_splits)

lemma dit_blocks_preserve:
  assumes tca: "\<forall>d c x y s. tca d c x y = Inr s \<longrightarrow> s = x"
  shows "dit_blocks_forward tca blocks x h = Inr y \<Longrightarrow> y = x"
proof (induction blocks arbitrary: x)
  case Nil
  then show ?case by simp
next
  case (Cons blk blocks)
  obtain d c where blk: "blk = (d, c)" by (cases blk)
  from Cons.prems obtain x' where x': "tca d c x h = Inr x'"
    and rest: "dit_blocks_forward tca blocks x' h = Inr y"
    by (auto simp: blk bindE_Inr_iff)
  from tca x' have "x' = x" by blast
  with Cons.IH rest show ?case by simp
qed

lemma linear_output_forward_out:
  assumes "linear_output_forward [w0, w1, w2, w3] x = Inr y"
  shows "x \<noteq> [] \<and> last x = w0 \<and> y = butlast x @ [w3]"
  using assms
  by (auto simp: linear_output_forward_def linear_def layer_norm_def bindE_Inr_iff
      split: if_splits)


lemma dit_forward_mismatch:
  assumes init: "DitDiffusionModel_init i c 11 nb = Inr m"
    and tca: "\<forall>d c x y s. tca d c x y = Inr s \<longrightarrow> s = x"
    and w: "S * D + 1 \<noteq> nat (10 * i + 1)"
  shows "\<exists>e. DitDiffusionModel_forward tca m [b', a, S, D] nt hs = Inl e"
proof (cases "DitDiffusionModel_forward tca m [b', a, S, D] nt hs")
  case (Inl e)
  then show ?thesis by blast
next
  case (Inr s)
  note f = dit_init_fields[OF init]
  from Inr obtain h0 x1 x2 out where
    x1: "cat_last [[b', a, S * D], [nt, a, 1]] = Inr x1"
    and x2: "dit_blocks_forward tca (dit_blocks m) x1 h0 = Inr x2"
    and out: "linear_output_forward (linear_output m) x2 = Inr out"
    by (auto simp: DitDiffusionModel_forward_def Let_def bindE_Inr_iff flatten_from2_4
        split: if_splits)
  from cat_last_width[OF x1] have "x1 = [b', a, S * D + 1]" by simp
  moreover from dit_blocks_preserve[OF tca x2] have "x2 = x1" .
  ultimately show ?thesis
    using linear_output_forward_out[OF out[unfolded f(3)]] w by simp
qed

lemma dit_blocks_Inl:
  "dit_blocks_forward tca blocks x h = Inl e \<Longrightarrow> \<exists>d c x' h'. tca d c x' h' = Inl e"
proof (induction blocks arbitrary: x)
  case Nil
  then show ?case by simp
next
  case (Cons blk blocks)
  obtain d c where blk: "blk = (d, c)" by (cases blk)
  show ?case
  proof (cases "tca d c x h")
    case (Inl e')
    with Cons.prems have "e' = e" by (simp add: blk)
    with Inl show ?thesis by blast
  next
    case (Inr x')
    with Cons.prems have "dit_blocks_forward tca blocks x' h = Inl e" by (simp add: blk)
    then show ?thesis by (rule Cons.IH)
  qed
qed

text \<open>
  The DiT built for another trajectory width raises inside one of its cross-attention
  blocks, or else at the first linear layer of its output head.
\<close>

lemma dit_forward_mismatch_error:
  assumes init: "DitDiffusionModel_init i c 11 nb = Inr m"
    and tca: "\<forall>d c x y s. tca d c x y = Inr s \<longrightarrow> s = x"
    and w: "S * D + 1 \<noteq> nat (10 * i + 1)"
  shows "\<exists>e. DitDiffusionModel_forward tca m [B, A, S, D] B [B', A', H, C] = Inl e \<and>
             (e = RuntimeError MatmulMismatch \<or> (\<exists>d c x h. tca d c x h = Inl e))"
proof -
  note f = dit_init_fields[OF init]
  let ?x1 = "[B, A, S * D + 1]" and ?h0 = "[B', A', H * C]"
  have run: "DitDiffusionModel_forward tca m [B, A, S, D] B [B', A', H, C] =
      bindE (dit_blocks_forward tca (dit_blocks m) ?x1 ?h0) (\<lambda>input_tensor.
      bindE (linear_output_forward (linear_output m) input_tensor) (\<lambda>noise_output.
        view_infer_last (numel noise_output) [B, A, 10]))"
    by (simp add: DitDiffusionModel_forward_def Let_def flatten_from2_4 cat_last_2 f(1))
  have head: "linear_output_forward (linear_output m) ?x1 = Inl (RuntimeError MatmulMismatch)"
    using w by (simp add: f(3) linear_output_forward_def linear_def)
  show ?thesis
  proof (cases "dit_blocks_forward tca (dit_blocks m) ?x1 ?h0")
    case (Inl e)
    from dit_blocks_Inl[OF Inl] show ?thesis
      unfolding run Inl by simp
  next
    case (Inr x2)
    from dit_blocks_preserve[OF tca Inr] have x2: "x2 = ?x1" .
    show ?thesis
      unfolding run Inr x2 bindE_Inr head bindE_Inl by blast
  qed
qed


lemma broadcast_shapes_4:
  assumes "broadcast_shapes [a1, a2, a3, a4] [b1, b2, b3, b4] = Some s"
  shows "s = [if a1 = 1 then b1 else a1, if a2 = 1 then b2 else a2,
              if a3 = 1 then b3 else a3, if a4 = 1 then b4 else a4]"
  using assms by (simp add: broadcast_shapes_eq_len split: if_splits)

lemma extract_fn_shape:
  "extract_fn a t s = Inr c \<Longrightarrow> shape c = length t # replicate (length s - 1) 1"
  by (auto simp: extract_fn_def split: if_splits)

lemma binop_shape: "binop f x y = Inr z \<Longrightarrow> broadcast_shapes (shape x) (shape y) = Some (shape z)"
  by (auto simp: binop_def split: option.splits)


text \<open>A coefficient row times, or below, a tensor with four axes: the last three axes stay.\<close>

lemma binop_row_4_left:
  assumes "binop f c x = Inr z" "shape c = [n, 1, 1, 1]" "shape x = [b, a, s, d]"
  shows "\<exists>b'. shape z = [b', a, s, d]"
  using broadcast_shapes_4[OF binop_shape[OF assms(1), unfolded assms(2,3)]] by simp






lemma build_denoiser_cases:
  assumes "build_denoiser bk i c nb dt = Inr (Some dm)"
  obtains (dit) m where "dt = ''dit''" "DitDiffusionModel_init i c 11 nb = Inr m"
      "dm = DitDiffusionModel_call bk m"
  | (unet) m where "dt = ''unet''" "UnetDiffusionModel_init None i c 11 = Inr m"
      "dm = UnetDiffusionModel_call bk m"
  using assms by (auto simp: build_denoiser_def bindE_Inr_iff split: if_splits)

lemma build_denoiser_enabled:
  assumes "build_denoiser bk i c nb dt = Inr d" "dt \<in> set [''dit'', ''unet'', ''none'']"
    "dt \<noteq> ''none''"
  shows "\<exists>dm. d = Some dm"
  using assms by (auto simp: build_denoiser_def bindE_Inr_iff split: if_splits)




lemma built_denoiser_nonneg:
  assumes "build_denoiser bk i c nb dt = Inr (Some dm)"
  shows "0 \<le> i"
  using assms
  by (cases rule: build_denoiser_cases) (auto dest: dit_init_fields(2) unet_init_fields(3))





lemma demo_tca: "\<forall>d c x y s. tca_forward demo_backend d c x y = Inr s \<longrightarrow> s = x"
  by (simp add: demo_backend_def TransformerCrossAttention_forward_def)

lemma training_update_id: "training self = tr \<Longrightarrow> self = self\<lparr>training := tr\<rparr>"
  by (cases self) simp







lemma perturb_x_shape_4:
  fixes self :: "('a::{plus,times}, 's) GaussianDiffusion"
  assumes "perturb_x self x0 t noise = Inr px" "shape x0 = [B, A, S, D]" "shape noise = [B, A, S, D]"
  shows "\<exists>b'. shape px = [b', A, S, D]"
proof -
  from assms(1) obtain c1 a c2 b where
    c1: "extract_fn (sqrt_alphas_cum_prod self) t (shape x0) = Inr c1"
    and a: "binop (*) c1 x0 = Inr a"
    and c2: "extract_fn (sqrt_one_minus_alphas_cum_prod self) t (shape x0) = Inr c2"
    and b: "binop (*) c2 noise = Inr b"
    and r: "binop (+) a b = Inr px"
    unfolding perturb_x_def bindE_Inr_iff by blast
  have s1: "shape c1 = [length t, 1, 1, 1]"
    using extract_fn_shape[OF c1] by (simp add: assms(2) numeral_eq_Suc)
  have s2: "shape c2 = [length t, 1, 1, 1]"
    using extract_fn_shape[OF c2] by (simp add: assms(2) numeral_eq_Suc)
  from binop_row_4_left[OF a s1 assms(2)] obtain b1 where sa: "shape a = [b1, A, S, D]" by blast
  from binop_row_4_left[OF b s2 assms(3)] obtain b2 where sb: "shape b = [b2, A, S, D]" by blast
  from broadcast_shapes_4[OF binop_shape[OF r, unfolded sa sb]] show ?thesis by simp
qed

text \<open>
  A denoiser built by the controller, called on a trajectory and a history whose flattened
  widths are not the ones it was built for, raises.
\<close>

lemma built_denoiser_mismatch:
  assumes b: "build_denoiser bk i c nb dt = Inr (Some dm)"
    and tca: "\<forall>d c x y s. tca_forward bk d c x y = Inr s \<longrightarrow> s = x"
    and sx: "shape x = [b', a, S, D]" and sh: "shape h = [b, a', H, C]"
    and wu: "dt = ''unet'' \<Longrightarrow> S * D + (H * C + 1) \<noteq> nat (10 * i + c * 11 + 1)"
    and wd: "dt = ''dit'' \<Longrightarrow> S * D + 1 \<noteq> nat (10 * i + 1)"
  shows "\<exists>e st'. dm tr st x t h = (Inl e, st')"
  using b
proof (cases rule: build_denoiser_cases)
  case (dit m)
  from dit_forward_mismatch[OF dit(2) tca wd[OF dit(1)]] obtain e where
    "DitDiffusionModel_forward (tca_forward bk) m [b', a, S, D] (length t) (shape h) = Inl e"
    by blast
  then show ?thesis
    by (simp add: dit(3) DitDiffusionModel_call_def sx)
next
  case (unet m)
  from unet_forward_mismatch[OF unet(2) wu[OF unet(1)]] obtain e where
    "UnetDiffusionModel_forward tr m [b', a, S, D] (length t) [b, a', H, C] = Inl e"
    by blast
  then show ?thesis
    by (simp add: unet(3) UnetDiffusionModel_call_def sx sh)
qed

text \<open>
  With one timestep per batch row, and the batch and the agents of the trajectory and the
  history agreeing, the exception is the one of the first linear layer that meets the
  wrong width, unless a cross-attention block of the DiT raises before.
\<close>

lemma built_denoiser_mismatch_error:
  assumes b: "build_denoiser bk i c nb dt = Inr (Some dm)"
    and tca: "\<forall>d c x y s. tca_forward bk d c x y = Inr s \<longrightarrow> s = x"
    and sx: "shape x = [B, A, S, D]" and sh: "shape h = [B, A, H, C]" and t: "length t = B"
    and wu: "dt = ''unet'' \<Longrightarrow> S * D + (H * C + 1) \<noteq> nat (10 * i + c * 11 + 1)"
    and wd: "dt = ''dit'' \<Longrightarrow> S * D + 1 \<noteq> nat (10 * i + 1)"
  shows "\<exists>e. dm tr st x t h = (Inl e, st) \<and>
             (e = RuntimeError MatmulMismatch \<or>
              dt = ''dit'' \<and> (\<exists>d c' s1 s2. tca_forward bk d c' s1 s2 = Inl e))"
  using b
proof (cases rule: build_denoiser_cases)
  case (dit m)
  from dit_forward_mismatch_error[OF dit(2) tca wd[OF dit(1)], of B A B A H C] obtain e where
    e: "DitDiffusionModel_forward (tca_forward bk) m [B, A, S, D] B [B, A, H, C] = Inl e"
    "e = RuntimeError MatmulMismatch \<or> (\<exists>d c x h. tca_forward bk d c x h = Inl e)"
    by blast
  from e(1) have "dm tr st x t h = (Inl e, st)"
    by (simp add: dit(3) DitDiffusionModel_call_def sx sh t)
  with e(2) dit(1) show ?thesis
    by blast
next
  case (unet m)
  from unet_forward_mismatch_error[OF unet(2) wu[OF unet(1)], of tr B A]
  have "dm tr st x t h = (Inl (RuntimeError MatmulMismatch), st)"
    by (simp add: unet(3) UnetDiffusionModel_call_def sx sh t)
  then show ?thesis
    by blast
qed

text \<open>
  The widths for \<open>his_stp = h\<close> against the widths for \<open>his_stp = 11\<close>: the one that the
  U-Net checks differs unless \<open>input_dim\<close> and \<open>conditional_dim\<close> are both zero, the one
  that the DiT checks itself differs unless \<open>input_dim\<close> is zero.
\<close>

lemma width_mismatch_unet:
  assumes "h \<noteq> 11" "1 \<le> h" "0 \<le> i" "0 \<le> (c::int)" "1 \<le> i + c"
  shows "nat (h - 1) * nat i + (nat h * nat c + 1) \<noteq> nat (10 * i + c * 11 + 1)"
proof -
  have e: "(h - 1) * i + h * c - (10 * i + c * 11) = (h - 11) * (i + c)"
    by (simp add: algebra_simps)
  have "(h - 11) * (i + c) \<noteq> 0"
    using assms by simp
  with e have ne: "(h - 1) * i + h * c \<noteq> 10 * i + c * 11"
    by linarith
  have l: "nat (h - 1) * nat i + (nat h * nat c + 1) = nat ((h - 1) * i + h * c + 1)"
    using assms by (simp add: nat_mult_distrib nat_add_distrib)
  have "0 \<le> (h - 1) * i + h * c"
    using assms by simp
  with ne show ?thesis
    unfolding l using assms by (simp add: eq_nat_nat_iff)
qed

lemma width_mismatch_dit:
  assumes "h \<noteq> 11" "1 \<le> h" "1 \<le> (i::int)"
  shows "nat (h - 1) * nat i + 1 \<noteq> nat (10 * i + 1)"
proof -
  have e2: "(h - 1) * i - 10 * i = (h - 11) * i"
    by (simp add: algebra_simps)
  have "(h - 11) * i \<noteq> 0"
    using assms by simp
  with e2 have ne2: "(h - 1) * i \<noteq> 10 * i"
    by linarith
  have l2: "nat (h - 1) * nat i + 1 = nat ((h - 1) * i + 1)"
    using assms by (simp add: nat_mult_distrib nat_add_distrib)
  from ne2 show ?thesis
    unfolding l2 using assms by (simp add: eq_nat_nat_iff)
qed

lemma remove_noise_Inl:
  assumes "diffusion_model self = Some dm" "dm (training self) st x t h = (Inl e, st')"
  shows "remove_noise self x t h st = (Inl e, st')"
  using assms by (simp add: remove_noise_def)

lemma get_losses_denoiser_Inl:
  assumes "diffusion_type self \<noteq> ''none''"
    and "perturb_x self x t \<lparr>shape = shape x, elem = normal (shd g)\<rparr> = Inr px"
    and "diffusion_model self = Some dm"
    and "dm (training self) st px t hist = (Inl e, st')"
  shows "get_losses self x hist msk t (st, g) = (Inl e, (st', stl g))"
  using assms by (simp add: get_losses.simps randn_like_def)

lemma get_losses_denoiser_Inr:
  assumes "diffusion_type self \<noteq> ''none''"
    and "perturb_x self x t \<lparr>shape = shape x, elem = normal (shd g)\<rparr> = Inr px"
    and "diffusion_model self = Some dm"
    and "dm (training self) st px t hist = (Inr est, st')"
    and "shape px = [B, A, S, C]"
  shows "get_losses self x hist msk t (st, g) =
     (bindE (mse_loss est \<lparr>shape = shape x, elem = normal (shd g)\<rparr>) (\<lambda>diffusion_loss.
      bindE (view msk [B, A, 1, 1]) (\<lambda>m.
      bindE (repeat m [1, 1, his_delt_step self, input_dim self]) (\<lambda>diffusion_loss_mask.
      bindE (binop (*) diffusion_loss diffusion_loss_mask) (\<lambda>lm.
      Inr (torch_div (tsum lm) (tsum diffusion_loss_mask)))))),
      (st', stl g))"
  using assms by (simp add: get_losses.simps randn_like_def Let_def)

text \<open>
  Claim C10 as stated fails in two ways.  A controller constructed with \<open>his_stp = 5\<close>
  and an empty beta array never calls its denoiser in \<open>sample\<close>, which returns on tensors
  shaped by \<open>his_stp = 5\<close>.  And for a controller constructed with \<open>his_stp = 2\<close> and
  \<open>input_dim = conditional_dim = 0\<close> the flattened widths do not depend on \<open>his_stp\<close>:
  \<open>get_losses\<close> on tensors shaped by \<open>his_stp = 2\<close> raises nothing and returns
  not-a-number, the quotient of two sums over no entry.
\<close>

theorem his_stp_counterexample:
  "(\<exists>y. run_sample demo_backend 5 5 5 (Some []) ''l2'' 4 ''unet''
          (const_tensor [2, 8, 4, 5] 0) (const_tensor [2, 8, 5, 5] 0) (0::nat, demo_rng)
        = Inr y \<and> shape y = [2, 8, 4, 5]) \<and>
   run_get_losses demo_backend 0 0 2 (Some [1/2]) ''l2'' 4 ''unet''
     (const_tensor [2, 8, 1, 0] 0) (const_tensor [2, 8, 2, 0] 0) (const_tensor [2, 8] 1) [0, 0]
     (0::nat, demo_rng)
     = Inr NaN"
proof (intro conjI)
  have "\<exists>m. UnetDiffusionModel_init None 5 5 11 = Inr m"
    by (simp add: shape_eval)
  then obtain m where m: "UnetDiffusionModel_init None 5 5 11 = Inr m" by blast
  show "\<exists>y. run_sample demo_backend 5 5 5 (Some []) ''l2'' 4 ''unet''
          (const_tensor [2, 8, 4, 5] 0) (const_tensor [2, 8, 5, 5] 0) (0::nat, demo_rng)
        = Inr y \<and> shape y = [2, 8, 4, 5]"
    by (simp add: run_sample_def init_Some_eq build_denoiser_def m sample_def const_tensor_def
        transpose_1_last_def BatchNorm2d_forward_def BatchNorm2d_shape_def batch_norm_def
        numel_def)
next
  let ?D = "const_tensor [2, 8, 1, 0] (0::real)" and ?H = "const_tensor [2, 8, 2, 0] (0::real)"
  let ?M = "const_tensor [2, 8] (1::real)"
  have "\<exists>m. UnetDiffusionModel_init None 0 0 11 = Inr m \<and>
       UnetDiffusionModel_forward True m [2, 8, 1, 0] 2 [2, 8, 2, 0] = Inr [2, 8, 10, 0]"
    by (simp add: shape_eval)
  then obtain m where m: "UnetDiffusionModel_init None 0 0 11 = Inr m"
    "UnetDiffusionModel_forward True m [2, 8, 1, 0] 2 [2, 8, 2, 0] = Inr [2, 8, 10, 0]"
    by blast
  have "\<exists>s :: (real, nat) GaussianDiffusion.
          GaussianDiffusion_init demo_backend 0 0 2 (Some [1/2]) ''l2'' 4 ''unet'' = Inr s"
    by (simp add: init_Some_eq build_denoiser_def m)
  then obtain s :: "(real, nat) GaussianDiffusion" where init:
    "GaussianDiffusion_init demo_backend 0 0 2 (Some [1/2]) ''l2'' 4 ''unet'' = Inr s"
    by blast
  note f = init_InrD[OF init]
  have dm: "diffusion_model s = Some (UnetDiffusionModel_call demo_backend m)"
    using f(16) by (simp add: build_denoiser_def m)
  let ?N = "\<lparr>shape = shape ?D, elem = normal (shd demo_rng)\<rparr>"
  have "\<exists>xt. perturb_x s ?D [0, 0] ?N = Inr xt \<and> shape xt = shape ?D \<and>
           (\<forall>idx. valid_idx (shape ?D) idx \<longrightarrow>
              elem xt idx =
                sqrt_alphas_cum_prod s ! nat ([0, 0] ! (idx ! 0)) * elem ?D idx +
                sqrt_one_minus_alphas_cum_prod s ! nat ([0, 0] ! (idx ! 0)) * elem ?N idx)"
    by (rule perturb_x_value[where rest = "[8, 1, 0]"]) (simp_all add: f const_tensor_def)
  then obtain px where px: "perturb_x s ?D [0, 0] ?N = Inr px" "shape px = [2, 8, 1, 0]"
    by (auto simp: const_tensor_def)
  have call: "UnetDiffusionModel_call demo_backend m (training s) 0 px [0, 0] ?H
              = (Inr \<lparr>shape = [2, 8, 10, 0], elem = elem px\<rparr>, 0)"
    using m(2) px(2)
    by (simp add: UnetDiffusionModel_call_def const_tensor_def demo_backend_def numeral_2_eq_2
        f(15))
  have dt: "diffusion_type s \<noteq> ''none''"
    by (simp add: f)
  have s0: "(\<Sum>b<(2::nat). \<Sum>a<(8::nat). \<Sum>s<(10::nat). \<Sum>c<(0::nat). g [b, a, s, c]) = (0::real)"
    "(\<Sum>b<(2::nat). \<Sum>a<(8::nat). \<Sum>s<(1::nat). \<Sum>c<(0::nat). g [b, a, s, c]) = (0::real)"
    for g
    by simp_all
  have "get_losses s ?D ?H ?M [0, 0] (0, demo_rng) = (Inr NaN, (0, stl demo_rng))"
    unfolding get_losses_denoiser_Inr[OF dt px(1) dm call px(2)]
    by (simp add: f const_tensor_def mse_loss_def binop_def broadcast_shapes_def pad_to_def
        view_def repeat_def numel_def tsum_def sum_list_indices_4 s0 torch_div_def
        Let_def del: indices.simps)
  then show "run_get_losses demo_backend 0 0 2 (Some [1/2]) ''l2'' 4 ''unet''
     ?D ?H ?M [0, 0] (0::nat, demo_rng) = Inr NaN"
    by (simp add: run_get_losses_def init)
qed

text \<open>
  Claim C10, amended.  The denoiser of a controller does not depend on the \<open>his_stp\<close> the
  controller is constructed with: both denoisers are built with \<open>his_stp = 11\<close>.  For
  every \<open>his_stp \<ge> 1\<close> other than 11 and \<open>conditional_dim \<ge> 0\<close>, with \<open>input_dim\<close> and
  \<open>conditional_dim\<close> not both zero for the U-Net and with \<open>input_dim \<ge> 1\<close> for the DiT, the
  flattened width of a trajectory and a history shaped by the caller's \<open>his_stp\<close> differs
  from the width the denoiser was built for.  Every call to \<open>get_losses\<close> on such tensors
  raises; with one timestep inside \<open>[0, num_time_steps)\<close> per batch row the exception is
  the shape mismatch of the first linear layer that meets the wrong width, or one that a
  cross-attention block of the DiT raises before.  Every call to \<open>sample\<close> on such tensors
  raises in the same way when the controller has at least one timestep; without a
  timestep \<open>sample\<close> does not call the denoiser and applies the final normalisation to
  its input.  The cross-attention block is taken to return the shape of its first
  argument whenever it returns.
\<close>

theorem his_stp_not_forwarded:
  fixes bk :: "('a::linordered_field, 'b::{one,minus,times,inverse}, 's) backend"
  assumes init: "GaussianDiffusion_init bk i c h (Some bs) lt nb dt = Inr self0"
    and mode: "self = self0\<lparr>training := tr\<rparr>"
    and en: "dt \<noteq> ''none''" and h: "h \<noteq> 11" "1 \<le> h"
    and dims: "0 \<le> c" "if dt = ''unet'' then 1 \<le> i + c else 1 \<le> i"
    and tca: "\<forall>d c x y s. tca_forward bk d c x y = Inr s \<longrightarrow> s = x"
    and shp: "shape x = [B, A, nat (h - 1), nat i]" "shape hist = [B, A, nat h, nat c]"
  shows "(\<forall>h'. \<exists>self'. GaussianDiffusion_init bk i c h' (Some bs) lt nb dt = Inr self' \<and>
                    diffusion_model self' = diffusion_model self) \<and>
         (dt = ''unet'' \<longrightarrow>
            nat (h - 1) * nat i + (nat h * nat c + 1) \<noteq> nat (10 * i + c * 11 + 1)) \<and>
         (dt = ''dit'' \<longrightarrow> nat (h - 1) * nat i + 1 \<noteq> nat (10 * i + 1)) \<and>
         (\<exists>e. fst (get_losses self x hist msk t (st, g)) = Inl e) \<and>
         (length t = B \<and> (\<forall>k\<in>set t. 0 \<le> k \<and> k < int (num_time_steps self)) \<longrightarrow>
            (\<exists>e. get_losses self x hist msk t (st, g) = (Inl e, (st, stl g)) \<and>
                  (e = RuntimeError MatmulMismatch \<or>
                   dt = ''dit'' \<and> (\<exists>d c' s1 s2. tca_forward bk d c' s1 s2 = Inl e)))) \<and>
         (0 < num_time_steps self \<longrightarrow>
            (\<exists>e. sample self x hist (st, g) = (Inl e, (st, g)) \<and>
                  (e = RuntimeError MatmulMismatch \<or>
                   dt = ''dit'' \<and> (\<exists>d c' s1 s2. tca_forward bk d c' s1 s2 = Inl e)))) \<and>
         (num_time_steps self = 0 \<longrightarrow>
            sample self x hist (st, g) = (final_norm self x, (st, g)))"
proof -
  note f = init_InrD[OF init]
  from build_denoiser_enabled[OF f(16) f(18) en] obtain dm where
    dm0: "diffusion_model self0 = Some dm"
    by blast
  have b: "build_denoiser bk i c nb dt = Inr (Some dm)"
    using f(16) dm0 by simp
  have dm: "diffusion_model self = Some dm" and dt: "diffusion_type self \<noteq> ''none''"
    and tr: "training self = tr"
    using dm0 f(2) en by (simp_all add: mode)
  have i0: "0 \<le> i"
    using b by (rule built_denoiser_nonneg)
  have wu: "nat (h - 1) * nat i + (nat h * nat c + 1) \<noteq> nat (10 * i + c * 11 + 1)"
    if "dt = ''unet''"
    using h i0 dims that by (intro width_mismatch_unet) simp_all
  have "dt = ''dit'' \<or> dt = ''unet''"
    using f(18) en by auto
  then have wd: "nat (h - 1) * nat i + 1 \<noteq> nat (10 * i + 1)" if "dt = ''dit''"
    using h dims that by (intro width_mismatch_dit) (auto split: if_splits)
  have never: "\<exists>self'. GaussianDiffusion_init bk i c h' (Some bs) lt nb dt = Inr self' \<and>
                    diffusion_model self' = diffusion_model self" for h'
    using f(17,18) b by (simp add: init_Some_eq dm)
  have fails: "\<exists>e st'. dm tr' st0 x' t' hist = (Inl e, st')"
    if "shape x' = [b', A, nat (h - 1), nat i]" for tr' st0 x' t' b'
    using b tca that shp(2) wu wd by (rule built_denoiser_mismatch)
  have pinned: "\<exists>e. dm tr' st0 x' t' hist = (Inl e, st0) \<and>
             (e = RuntimeError MatmulMismatch \<or>
              dt = ''dit'' \<and> (\<exists>d c' s1 s2. tca_forward bk d c' s1 s2 = Inl e))"
    if "shape x' = [B, A, nat (h - 1), nat i]" "length t' = B" for tr' st0 x' t'
    using b tca that(1) shp(2) that(2) wu wd by (rule built_denoiser_mismatch_error)
  let ?noise = "\<lparr>shape = shape x, elem = normal (shd g)\<rparr>"
  have gl: "\<exists>e. fst (get_losses self x hist msk t (st, g)) = Inl e"
  proof (cases "perturb_x self x t ?noise")
    case (Inl e)
    then show ?thesis
      using dt by (simp add: get_losses.simps randn_like_def)
  next
    case (Inr px)
    from perturb_x_shape_4[OF Inr shp(1)] obtain b' where
      "shape px = [b', A, nat (h - 1), nat i]" by (auto simp: shp(1))
    from fails[OF this] obtain e st' where "dm (training self) st px t hist = (Inl e, st')"
      by blast
    from get_losses_denoiser_Inl[OF dt Inr dm this] show ?thesis
      by simp
  qed
  have glp: "\<exists>e. get_losses self x hist msk t (st, g) = (Inl e, (st, stl g)) \<and>
                  (e = RuntimeError MatmulMismatch \<or>
                   dt = ''dit'' \<and> (\<exists>d c' s1 s2. tca_forward bk d c' s1 s2 = Inl e))"
    if t: "length t = B \<and> (\<forall>k\<in>set t. 0 \<le> k \<and> k < int (num_time_steps self))"
  proof -
    have "\<exists>xt. perturb_x self x t ?noise = Inr xt \<and> shape xt = shape x \<and>
           (\<forall>idx. valid_idx (shape x) idx \<longrightarrow>
              elem xt idx =
                sqrt_alphas_cum_prod self ! nat (t ! (idx ! 0)) * elem x idx +
                sqrt_one_minus_alphas_cum_prod self ! nat (t ! (idx ! 0)) * elem ?noise idx)"
      by (rule perturb_x_value[where rest = "[A, nat (h - 1), nat i]"])
        (use t in \<open>simp_all add: mode f shp\<close>)
    then obtain px where px: "perturb_x self x t ?noise = Inr px" "shape px = shape x"
      by blast
    have sp: "shape px = [B, A, nat (h - 1), nat i]"
      using px(2) shp(1) by simp
    have lt: "length t = B"
      using t by simp
    from pinned[OF sp lt, of "training self" st] obtain e where
      e: "dm (training self) st px t hist = (Inl e, st)"
      "e = RuntimeError MatmulMismatch \<or>
       dt = ''dit'' \<and> (\<exists>d c' s1 s2. tca_forward bk d c' s1 s2 = Inl e)"
      by blast
    from get_losses_denoiser_Inl[OF dt px(1) dm e(1)] e(2) show ?thesis
      by blast
  qed
  have hs: "shape hist \<noteq> []" "shape hist ! 0 = B"
    by (simp_all add: shp(2))
  have smp: "\<exists>e. sample self x hist (st, g) = (Inl e, (st, g)) \<and>
                  (e = RuntimeError MatmulMismatch \<or>
                   dt = ''dit'' \<and> (\<exists>d c' s1 s2. tca_forward bk d c' s1 s2 = Inl e))"
    if n: "0 < num_time_steps self"
  proof -
    from n obtain k where k: "num_time_steps self = Suc k"
      by (cases "num_time_steps self") auto
    have lt: "length (replicate B (int k)) = B"
      by simp
    from pinned[OF shp(1) lt, of "training self" st] obtain e where
      e: "dm (training self) st x (replicate B (int k)) hist = (Inl e, st)"
      "e = RuntimeError MatmulMismatch \<or>
       dt = ''dit'' \<and> (\<exists>d c' s1 s2. tca_forward bk d c' s1 s2 = Inl e)"
      by blast
    from remove_noise_Inl[OF dm e(1)]
    have "sample_body self hist B (int k) x (st, g) = (Inl e, (st, g))"
      by (rule sample_body_Inl)
    then have "sample self x hist (st, g) = (Inl e, (st, g))"
      unfolding sample_enabled[OF dt] hs(2) k sample_loop_Suc using hs(1) by simp
    with e(2) show ?thesis
      by blast
  qed
  have zero: "sample self x hist (st, g) = (final_norm self x, (st, g))"
    if "num_time_steps self = 0"
    unfolding sample_enabled[OF dt] that using hs(1) by simp
  from never wu wd gl glp smp zero show ?thesis
    by blast
qed

theorem his_stp_not_forwarded_witness:
  "\<exists>(s :: (real, nat) GaussianDiffusion).
     GaussianDiffusion_init demo_backend 5 5 5 (Some [1/2]) ''l2'' 4 ''unet'' = Inr s \<and>
     (5::int) \<noteq> 11 \<and> 0 < num_time_steps s \<and>
     nat (5 - 1) * nat 5 + (nat 5 * nat 5 + 1) \<noteq> nat (10 * 5 + 5 * 11 + 1) \<and>
     length [0, 0 :: int] = 2 \<and> list_all (\<lambda>k. 0 \<le> k \<and> k < int (num_time_steps s)) [0, 0] \<and>
     get_losses s (const_tensor [2, 8, 4, 5] 0) (const_tensor [2, 8, 5, 5] 0)
       (const_tensor [2, 8] 1) [0, 0] (0, demo_rng)
       = (Inl (RuntimeError MatmulMismatch), (0, stl demo_rng)) \<and>
     sample s (const_tensor [2, 8, 4, 5] 0) (const_tensor [2, 8, 5, 5] 0) (0, demo_rng)
       = (Inl (RuntimeError MatmulMismatch), (0, demo_rng))"
proof -
  let ?X = "const_tensor [2, 8, 4, 5] (0::real)" and ?H = "const_tensor [2, 8, 5, 5] (0::real)"
  have "\<exists>m. UnetDiffusionModel_init None 5 5 11 = Inr m"
    by (simp add: shape_eval)
  then obtain m where m: "UnetDiffusionModel_init None 5 5 11 = Inr m" by blast
  have "\<exists>s :: (real, nat) GaussianDiffusion.
          GaussianDiffusion_init demo_backend 5 5 5 (Some [1/2]) ''l2'' 4 ''unet'' = Inr s"
    by (simp add: init_Some_eq build_denoiser_def m)
  then obtain s :: "(real, nat) GaussianDiffusion" where init:
    "GaussianDiffusion_init demo_backend 5 5 5 (Some [1/2]) ''l2'' 4 ''unet'' = Inr s"
    by blast
  note f = init_InrD[OF init]
  have mode: "s = s\<lparr>training := True\<rparr>"
    using f(15) by (rule training_update_id)
  have shp: "shape ?X = [2, 8, nat (5 - 1), nat 5]" "shape ?H = [2, 8, nat 5, nat 5]"
    by (simp_all add: const_tensor_def)
  have n: "0 < num_time_steps s"
    by (simp add: f)
  have t: "length [0, 0 :: int] = 2 \<and> (\<forall>k\<in>set [0, 0]. 0 \<le> k \<and> k < int (num_time_steps s))"
    by (simp add: f)
  have dims: "if ''unet'' = ''unet'' then (1::int) \<le> 5 + 5 else (1::int) \<le> 5"
    by simp
  note r = his_stp_not_forwarded[OF init mode _ _ _ _ dims demo_tca shp,
      of "const_tensor [2, 8] 1" "[0, 0]" 0 demo_rng]
  from r t have w: "nat (5 - 1) * nat 5 + (nat 5 * nat 5 + 1) \<noteq> nat (10 * 5 + 5 * 11 + 1)"
    and gl: "get_losses s ?X ?H (const_tensor [2, 8] 1) [0, 0] (0, demo_rng)
       = (Inl (RuntimeError MatmulMismatch), (0, stl demo_rng))"
    by auto
  from r n have smp: "sample s ?X ?H (0, demo_rng) = (Inl (RuntimeError MatmulMismatch), (0, demo_rng))"
    by auto
  from init n w t gl smp show ?thesis
    by (intro exI[of _ s]) simp
qed

end
